theory Spec2Isabelle
  imports Complex_Main "HOL-Library.Sublist" "HOL-Library.AList"
begin

section \<open>Values of the Python program\<close>

text \<open>
  A Python \<open>str\<close> is a sequence of Unicode code points, so it is a list of naturals here
  (\<open>len\<close> is \<open>length\<close>, a slice \<open>s[:n]\<close> is \<open>take n s\<close>). ASCII literals of the source
  are written through \<open>ascii\<close>; the few characters beyond ASCII are given by code point.
\<close>

type_synonym pystr = "nat list"

definition ascii :: "string \<Rightarrow> pystr" where
  "ascii s = map of_char s"

text \<open>
  Python \<open>int\<close> is \<open>int\<close>. A Python or numpy \<open>float\<close> is a binary64 number: a finite one
  is the real it denotes, and the datatype adds the three special values a division can
  produce.
\<close>

datatype pyfloat = Finite real | PosInf | NegInf | NaN

text \<open>Rounding to the nearest integer, ties to the even neighbour (Python and numpy).\<close>

definition round_half_even :: "real \<Rightarrow> int" where
  "round_half_even x =
     (let f = \<lfloor>x\<rfloor>; d = x - of_int f
      in if d < 1/2 then f else if 1/2 < d then f + 1 else if even f then f else f + 1)"

text \<open>
  Every float operation gives the binary64 number nearest to its exact result, ties to
  the even mantissa: \<open>fl\<close>. The magnitude is scaled by powers of two until it lies between
  \<open>2^52\<close> and \<open>2^53\<close>, rounded to an integer and scaled back; at most 1074 doublings are
  made, which is the gradual underflow of the format (the smallest positive float is
  \<open>2^-1074\<close>). Results of \<open>2^1024\<close> and beyond, where Python raises \<open>OverflowError\<close> or
  numpy gives \<open>inf\<close>, are outside the model: no count of a video is that large.
\<close>

fun normalise :: "nat \<Rightarrow> real \<Rightarrow> real \<Rightarrow> real \<times> real" where
  "normalise 0 y s = (y, s)"
| "normalise (Suc n) y s =
     (if y < 2 ^ 52 then normalise n (y * 2) (s / 2)
      else if 2 ^ 53 \<le> y then normalise n (y / 2) (s * 2)
      else (y, s))"

definition fl :: "real \<Rightarrow> real" where
  "fl x =
     (if x = 0 then 0
      else let (y, s) = normalise 1074 \<bar>x\<bar> 1
           in sgn x * of_int (round_half_even y) * s)"

text \<open>
  The builtin \<open>round(x, ndigits)\<close> on a float: the decimal with \<open>ndigits\<close> places nearest
  to the exact value of \<open>x\<close>, then the float nearest to that decimal.
\<close>

definition py_round :: "real \<Rightarrow> nat \<Rightarrow> real" where
  "py_round x ndigits = fl (of_int (round_half_even (x * 10 ^ ndigits)) / 10 ^ ndigits)"

text \<open>
  What the scaling loop keeps true of the scaled magnitude \<open>y\<close> and the scale \<open>s\<close>: the
  scale is a power of two, and the loop either only doubles or only halves.
\<close>

definition scale_ok :: "real \<Rightarrow> real \<Rightarrow> bool" where
  "scale_ok y s \<longleftrightarrow>
     0 \<le> y \<and> ((\<exists>k::nat. s = 1 / 2 ^ k) \<and> (s < 1 \<longrightarrow> y < 2 ^ 53)
              \<or> (\<exists>k::nat. s = 2 ^ k) \<and> 1 < s \<and> 2 ^ 52 \<le> y)"

text \<open>
  Elementwise float operations of a pandas column: a division by zero raises nothing and
  gives \<open>inf\<close>, \<open>-inf\<close> or \<open>nan\<close>; the special values pass through multiplication and
  rounding. Rounding a float to no decimals gives an integer, which needs no \<open>fl\<close>.
\<close>

fun np_div :: "real \<Rightarrow> pyfloat \<Rightarrow> pyfloat" where
  "np_div x (Finite y) =
     (if y = 0 then (if x = 0 then NaN else if 0 < x then PosInf else NegInf)
      else Finite (fl (x / y)))"
| "np_div x PosInf = Finite 0"
| "np_div x NegInf = Finite 0"
| "np_div x NaN = NaN"

fun np_mul :: "pyfloat \<Rightarrow> real \<Rightarrow> pyfloat" where
  "np_mul (Finite x) c = Finite (fl (x * c))"
| "np_mul PosInf c = (if 0 < c then PosInf else if c < 0 then NegInf else NaN)"
| "np_mul NegInf c = (if 0 < c then NegInf else if c < 0 then PosInf else NaN)"
| "np_mul NaN c = NaN"

fun np_round0 :: "pyfloat \<Rightarrow> pyfloat" where
  "np_round0 (Finite x) = Finite (of_int (round_half_even x))"
| "np_round0 v = v"

text \<open>\<open>Series.max()\<close>: the largest entry, \<open>nan\<close> for a column without entries.\<close>

definition series_max :: "real list \<Rightarrow> pyfloat" where
  "series_max xs = (case xs of [] \<Rightarrow> NaN | x # ys \<Rightarrow> Finite (fold max ys x))"

section \<open>The market data pipeline (\<open>get_market_data\<close>)\<close>

text \<open>
  One element of \<open>stats_res['items']\<close>, the answer of the video metadata service. The
  fields the code reads with \<open>.get(key, default)\<close> are optional; a count holds the value
  \<open>int(...)\<close> gives for the field.
\<close>

record statistics =
  viewCount :: "int option"
  likeCount :: "int option"
  commentCount :: "int option"

record snippet =
  snippet_title :: pystr
  thumbnails_high_url :: pystr
  publishedAt :: pystr
  snippet_tags :: "pystr list option"

record item =
  item_id :: pystr
  item_statistics :: statistics
  item_snippet :: snippet

text \<open>The dictionary appended to \<open>data\<close> for each item: a row of the data frame.\<close>

record row =
  Video_ID :: pystr
  Thumbnail :: pystr
  Title :: pystr
  Views :: int
  Likes :: int
  Comments :: int
  Engagement :: real
  Earnings :: real
  Virality_Raw :: real
  Link :: pystr
  Published :: pystr
  Tags :: "pystr list"

text \<open>A row once the column \<open>'Virality Score'\<close> has been added to the frame.\<close>

record scored_row = row +
  Virality_Score :: pyfloat

definition get_default :: "'a option \<Rightarrow> 'a \<Rightarrow> 'a" where
  "get_default v d = (case v of None \<Rightarrow> d | Some x \<Rightarrow> x)"

text \<open>
  The three formulas of the loop body. The quotient of two integers is the float nearest
  to the exact quotient; an integer that meets a float is converted to the nearest float
  first; every product and sum is rounded.
\<close>

definition engagement_of :: "int \<Rightarrow> int \<Rightarrow> int \<Rightarrow> real" where
  "engagement_of views likes comments =
     (if views > 0 then fl (fl (of_int (likes + comments) / of_int views) * 100) else 0)"

definition revenue_of :: "real \<Rightarrow> int \<Rightarrow> real" where
  "revenue_of rpm views = fl (fl (of_int views / 1000) * rpm)"

definition raw_score_of :: "int \<Rightarrow> int \<Rightarrow> int \<Rightarrow> real" where
  "raw_score_of views likes comments =
     fl (fl (fl (fl (of_int views) * 0.5) + fl (of_int (likes * 50)))
         + fl (of_int (comments * 100)))"

text \<open>The body of the \<open>for item in ...\<close> loop: the row built from one item.\<close>

definition make_row :: "real \<Rightarrow> item \<Rightarrow> row" where
  "make_row rpm it =
     (let stats = item_statistics it;
          snip = item_snippet it;
          views = get_default (viewCount stats) 0;
          likes = get_default (likeCount stats) 0;
          comments = get_default (commentCount stats) 0;
          video_id = item_id it;
          engagement = engagement_of views likes comments;
          revenue = revenue_of rpm views;
          video_url = ascii ''https://www.youtube.com/watch?v='' @ video_id;
          raw_score = raw_score_of views likes comments
      in \<lparr> Video_ID = video_id,
           Thumbnail = thumbnails_high_url snip,
           Title = snippet_title snip,
           Views = views,
           Likes = likes,
           Comments = comments,
           Engagement = py_round engagement 2,
           Earnings = py_round revenue 2,
           Virality_Raw = raw_score,
           Link = video_url,
           Published = take 10 (publishedAt snip),
           Tags = get_default (snippet_tags snip) [] \<rparr>)"

text \<open>
  One pass of the loop on the two accumulators \<open>data\<close> and \<open>all_tags\<close>:
  \<open>if tags: all_tags.extend(tags)\<close> and \<open>data.append({...})\<close>.
\<close>

definition loop_step :: "real \<Rightarrow> row list \<times> pystr list \<Rightarrow> item \<Rightarrow> row list \<times> pystr list" where
  "loop_step rpm acc it =
     (let tags = get_default (snippet_tags (item_snippet it)) [];
          all_tags = (if tags \<noteq> [] then snd acc @ tags else snd acc)
      in (fst acc @ [make_row rpm it], all_tags))"

text \<open>
  The two column assignments under \<open>if not df.empty\<close>: the raw score divided by the
  column maximum, times 100, then rounded to no decimals.
\<close>

definition virality_column :: "row list \<Rightarrow> pyfloat list" where
  "virality_column data =
     (let raw = map Virality_Raw data;
          score = map (\<lambda>x. np_mul (np_div x (series_max raw)) 100) raw
      in map np_round0 score)"

definition add_virality_score :: "row list \<Rightarrow> scored_row list" where
  "add_virality_score data =
     map (\<lambda>(r, s). row.extend r (scored_row.fields s)) (zip data (virality_column data))"

text \<open>
  \<open>get_market_data\<close> after the two requests to the metadata service: \<open>items\<close> is
  \<open>stats_res.get('items', [])\<close> and \<open>rpm\<close> the global set by the slider. An empty frame
  gets no score column, so it is the empty list of rows.
\<close>

definition get_market_data :: "real \<Rightarrow> item list \<Rightarrow> scored_row list \<times> pystr list" where
  "get_market_data rpm items =
     (let (data, all_tags) = foldl (loop_step rpm) ([], []) items;
          df = (if data \<noteq> [] then add_virality_score data else [])
      in (df, all_tags))"

text \<open>The counts of a well-formed video record are non-negative.\<close>

definition nonneg_opt :: "int option \<Rightarrow> bool" where
  "nonneg_opt v = (case v of None \<Rightarrow> True | Some n \<Rightarrow> 0 \<le> n)"

definition wf_item :: "item \<Rightarrow> bool" where
  "wf_item it =
     (nonneg_opt (viewCount (item_statistics it)) \<and>
      nonneg_opt (likeCount (item_statistics it)) \<and>
      nonneg_opt (commentCount (item_statistics it)))"

text \<open>The range a virality score is meant to lie in (a 0 to 100 scale).\<close>

definition score_in_range :: "pyfloat \<Rightarrow> bool" where
  "score_in_range v = (case v of Finite x \<Rightarrow> 0 \<le> x \<and> x \<le> 100 | _ \<Rightarrow> False)"

section \<open>The tag counter (\<open>Counter(all_tags).most_common(30)\<close>)\<close>

text \<open>
  A \<open>Counter\<close> is a dictionary, and a Python dictionary keeps its keys in the order of
  their first insertion: it is an association list here, \<open>AList.update\<close> being the
  assignment \<open>mapping[k] = v\<close> (in place for a key that is present, at the end for a new
  one). \<open>Counter(iterable)\<close> counts with
  \<open>for elem in iterable: mapping[elem] = mapping.get(elem, 0) + 1\<close>.
\<close>

definition dict_get :: "('k \<times> 'v) list \<Rightarrow> 'k \<Rightarrow> 'v \<Rightarrow> 'v" where
  "dict_get mapping k d = (case map_of mapping k of None \<Rightarrow> d | Some v \<Rightarrow> v)"

definition count_elements :: "('a \<times> nat) list \<Rightarrow> 'a list \<Rightarrow> ('a \<times> nat) list" where
  "count_elements mapping iterable =
     foldl (\<lambda>m elem. AList.update elem (dict_get m elem 0 + 1) m) mapping iterable"

definition Counter :: "'a list \<Rightarrow> ('a \<times> nat) list" where
  "Counter iterable = count_elements [] iterable"

text \<open>
  \<open>most_common(n)\<close> is \<open>heapq.nlargest(n, self.items(), key=itemgetter(1))\<close>, which the
  library documents as \<open>sorted(iterable, key=key, reverse=True)[:n]\<close>: a stable sort by
  descending count, cut after \<open>n\<close> entries.
\<close>

definition nlargest :: "nat \<Rightarrow> ('a \<times> nat) list \<Rightarrow> ('a \<times> nat) list" where
  "nlargest n iterable = take n (sort_key (\<lambda>p. - int (snd p)) iterable)"

definition most_common :: "('a \<times> nat) list \<Rightarrow> nat \<Rightarrow> ('a \<times> nat) list" where
  "most_common self n = nlargest n self"

definition tag_counts :: "pystr list \<Rightarrow> (pystr \<times> nat) list" where
  "tag_counts all_tags = most_common (Counter all_tags) 30"

text \<open>The position at which a value occurs first in a list.\<close>

fun first_occurrence :: "'a \<Rightarrow> 'a list \<Rightarrow> nat" where
  "first_occurrence x [] = 0"
| "first_occurrence x (y # ys) = (if x = y then 0 else Suc (first_occurrence x ys))"

section \<open>The strategy engine (\<open>ai_content_engine\<close>)\<close>

text \<open>
  A raised exception is a value: one of class \<open>Exception\<close>, which \<open>except Exception\<close>
  catches, or one outside it (\<open>KeyboardInterrupt\<close>, \<open>SystemExit\<close>), which only a bare
  \<open>except:\<close> catches. Both carry the text \<open>str(e)\<close>. A call that may raise returns
  \<open>Inl\<close> of the exception or \<open>Inr\<close> of its result.
\<close>

datatype pyexc = PyException pystr | PyBaseException pystr

fun str_of_exc :: "pyexc \<Rightarrow> pystr" where
  "str_of_exc (PyException msg) = msg"
| "str_of_exc (PyBaseException msg) = msg"

text \<open>An element of the list \<open>get_transcript\<close> returns.\<close>

record transcript_entry =
  entry_text :: pystr
  entry_start :: real
  entry_duration :: real

text \<open>\<open>sep.join(ss)\<close>.\<close>

fun str_join :: "pystr \<Rightarrow> pystr list \<Rightarrow> pystr" where
  "str_join sep [] = []"
| "str_join sep [s] = s"
| "str_join sep (s # t # ss) = s @ sep @ str_join sep (t # ss)"

text \<open>
  The first step of \<open>ai_content_engine\<close>, the \<open>try\<close> with its bare \<open>except:\<close>; it gives
  \<open>(context_source, transcript_text)\<close>. The three files differ in the cut \<open>cap\<close> only.
  \<open>get_transcript\<close> is the transcript service, \<open>str_of_list\<close> the text Python's string
  formatting gives for the list \<open>tags\<close>; both are parameters.
\<close>

definition transcript_or_metadata ::
  "nat \<Rightarrow> (pystr \<Rightarrow> pyexc + transcript_entry list) \<Rightarrow> (pystr list \<Rightarrow> pystr) \<Rightarrow>
     pystr \<Rightarrow> pystr \<Rightarrow> pystr list \<Rightarrow> pystr \<times> pystr" where
  "transcript_or_metadata cap get_transcript str_of_list video_id title tags =
     (case get_transcript video_id of
        Inr transcript_list \<Rightarrow>
          (ascii ''Full Transcript'',
           take cap (str_join (ascii '' '') (map entry_text transcript_list)))
      | Inl _ \<Rightarrow>
          (ascii ''Title & Metadata (No Captions Found)'',
           ascii ''Video Title: '' @ title @ ascii ''. Video Tags: '' @ str_of_list tags))"

text \<open>The prompt of each file, line by line as the source has it.\<close>

definition prompt_app :: "pystr \<Rightarrow> pystr \<Rightarrow> pystr" where
  \<open>prompt_app context_source transcript_text = concat
     [ascii ''\<newline>'',
      ascii ''    Act as a Viral Content Strategist (MrBeast Style).\<newline>'',
      ascii ''    \<newline>'',
      ascii ''    SOURCE MATERIAL ('', context_source, ascii ''):\<newline>'',
      ascii ''    "'', transcript_text, ascii ''..."\<newline>'',
      ascii ''    \<newline>'',
      ascii ''    TASK:\<newline>'',
      ascii ''    Analyze this content and generate a plan to RECREATE and OUTPERFORM it.\<newline>'',
      ascii ''    \<newline>'',
      ascii ''    OUTPUT FORMAT (Markdown):\<newline>'',
      ascii ''    ### '', [129504], ascii '' 1. The Psychology\<newline>'',
      ascii ''    * **Why it went viral:** (Analyze the hook/pacing)\<newline>'',
      ascii ''    * **The Gap:** (What was missing? How can we improve?)\<newline>'',
      ascii ''    \<newline>'',
      ascii ''    ### '', [128221], ascii '' 2. The Golden Script Outline\<newline>'',
      ascii ''    * **Hook (0:00-0:30):** [Visual + Verbal Hook]\<newline>'',
      ascii ''    * **Body:** [3 Key value points]\<newline>'',
      ascii ''    * **Retention Hack:** [Mid-video pattern interrupt]\<newline>'',
      ascii ''    * **CTA:** [Specific Call to Action]\<newline>'',
      ascii ''    \<newline>'',
      ascii ''    ### '', [127912], ascii '' 3. Thumbnail Studio\<newline>'',
      ascii ''    * **Idea 1:** [Visual description]\<newline>'',
      ascii ''    * **Idea 2:** [Visual description]\<newline>'',
      ascii ''    \<newline>'',
      ascii ''    ### '', [9889], ascii '' 4. Viral Hooks (Titles)\<newline>'',
      ascii ''    * Give 3 clickbait-style alternative titles.\<newline>'',
      ascii ''    '']\<close>

definition prompt_app1 :: "pystr \<Rightarrow> pystr \<Rightarrow> pystr" where
  \<open>prompt_app1 context_source transcript_text = concat
     [ascii ''\<newline>'',
      ascii ''    Act as a Viral Content Strategist.\<newline>'',
      ascii ''    SOURCE MATERIAL ('', context_source, ascii ''): "'', transcript_text, ascii ''..."\<newline>'',
      ascii ''    \<newline>'',
      ascii ''    TASK: Analyze this content and generate a plan to RECREATE and OUTPERFORM it.\<newline>'',
      ascii ''    \<newline>'',
      ascii ''    OUTPUT FORMAT (Markdown):\<newline>'',
      ascii ''    ### '', [129504], ascii '' 1. The Psychology\<newline>'',
      ascii ''    * **Why it went viral:** (Hook/Pacing)\<newline>'',
      ascii ''    * **The Gap:** (What can be improved?)\<newline>'',
      ascii ''    \<newline>'',
      ascii ''    ### '', [128221], ascii '' 2. The Golden Script Outline\<newline>'',
      ascii ''    * **Hook (0:00-0:30):** [Visual + Verbal Hook]\<newline>'',
      ascii ''    * **Body:** [Key value points]\<newline>'',
      ascii ''    * **CTA:** [Call to Action]\<newline>'',
      ascii ''    \<newline>'',
      ascii ''    ### '', [127912], ascii '' 3. Thumbnail Studio\<newline>'',
      ascii ''    * **Idea 1:** [Visual description]\<newline>'',
      ascii ''    * **Idea 2:** [Visual description]\<newline>'',
      ascii ''    \<newline>'',
      ascii ''    ### '', [9889], ascii '' 4. Viral Hooks\<newline>'',
      ascii ''    * Give 3 clickbait-style alternative titles.\<newline>'',
      ascii ''    '']\<close>

definition prompt_app2 :: "pystr \<Rightarrow> pystr \<Rightarrow> pystr" where
  \<open>prompt_app2 context_source transcript_text = concat
     [ascii ''\<newline>'',
      ascii ''        Act as a Viral Content Strategist.\<newline>'',
      ascii ''        SOURCE MATERIAL ('', context_source, ascii ''): "'', transcript_text, ascii ''..."\<newline>'',
      ascii ''        \<newline>'',
      ascii ''        TASK: Analyze this content and generate a plan to RECREATE and OUTPERFORM it.\<newline>'',
      ascii ''        \<newline>'',
      ascii ''        OUTPUT FORMAT (Markdown):\<newline>'',
      ascii ''        ### '', [129504], ascii '' 1. The Psychology\<newline>'',
      ascii ''        * **Why it went viral:** (Hook/Pacing)\<newline>'',
      ascii ''        * **The Gap:** (What can be improved?)\<newline>'',
      ascii ''        \<newline>'',
      ascii ''        ### '', [128221], ascii '' 2. The Golden Script Outline\<newline>'',
      ascii ''        * **Hook (0:00-0:30):** [Visual + Verbal Hook]\<newline>'',
      ascii ''        * **Body:** [Key value points]\<newline>'',
      ascii ''        * **CTA:** [Call to Action]\<newline>'',
      ascii ''        \<newline>'',
      ascii ''        ### '', [127912], ascii '' 3. Thumbnail Studio\<newline>'',
      ascii ''        * **Idea 1:** [Visual description]\<newline>'',
      ascii ''        * **Idea 2:** [Visual description]\<newline>'',
      ascii ''        \<newline>'',
      ascii ''        ### '', [9889], ascii '' 4. Viral Hooks\<newline>'',
      ascii ''        * Give 3 clickbait-style alternative titles.\<newline>'',
      ascii ''        '']\<close>


text \<open>
  \<open>ai_content_engine\<close> of \<open>app.py\<close>. \<open>generate_content\<close> is the completion service: it
  takes the model name and the prompt and gives the text of the response, or raises. The
  result is \<open>Inl e\<close> when the function raises \<open>e\<close> and \<open>Inr (text, context_source)\<close> when
  it returns.
\<close>

definition ai_content_engine ::
  "(pystr \<Rightarrow> pyexc + transcript_entry list) \<Rightarrow> (pystr \<Rightarrow> pystr \<Rightarrow> pyexc + pystr) \<Rightarrow>
     (pystr list \<Rightarrow> pystr) \<Rightarrow> pystr \<Rightarrow> pystr \<Rightarrow> pystr list \<Rightarrow> pyexc + pystr \<times> pystr" where
  "ai_content_engine get_transcript generate_content str_of_list video_id title tags =
     (let (context_source, transcript_text) =
            transcript_or_metadata 5000 get_transcript str_of_list video_id title tags;
          prompt = prompt_app context_source transcript_text
      in case generate_content (ascii ''gemini-pro'') prompt of
           Inl e \<Rightarrow> Inl e
         | Inr response_text \<Rightarrow> Inr (response_text, context_source))"

text \<open>\<open>ai_content_engine\<close> of \<open>app1.py\<close>: the same but for the prompt.\<close>

definition ai_content_engine_app1 ::
  "(pystr \<Rightarrow> pyexc + transcript_entry list) \<Rightarrow> (pystr \<Rightarrow> pystr \<Rightarrow> pyexc + pystr) \<Rightarrow>
     (pystr list \<Rightarrow> pystr) \<Rightarrow> pystr \<Rightarrow> pystr \<Rightarrow> pystr list \<Rightarrow> pyexc + pystr \<times> pystr" where
  "ai_content_engine_app1 get_transcript generate_content str_of_list video_id title tags =
     (let (context_source, transcript_text) =
            transcript_or_metadata 5000 get_transcript str_of_list video_id title tags;
          prompt = prompt_app1 context_source transcript_text
      in case generate_content (ascii ''gemini-pro'') prompt of
           Inl e \<Rightarrow> Inl e
         | Inr response_text \<Rightarrow> Inr (response_text, context_source))"

text \<open>
  \<open>ai_content_engine\<close> of \<open>app2.py\<close>: a cut at 8000, another model, and the completion
  call inside \<open>try ... except Exception as e\<close>, which returns the message
  (U+26A0, U+FE0F, then \<open>" AI Error: "\<close> and \<open>str(e)\<close>) with the label \<open>"Error"\<close>.
\<close>

definition ai_content_engine_app2 ::
  "(pystr \<Rightarrow> pyexc + transcript_entry list) \<Rightarrow> (pystr \<Rightarrow> pystr \<Rightarrow> pyexc + pystr) \<Rightarrow>
     (pystr list \<Rightarrow> pystr) \<Rightarrow> pystr \<Rightarrow> pystr \<Rightarrow> pystr list \<Rightarrow> pyexc + pystr \<times> pystr" where
  "ai_content_engine_app2 get_transcript generate_content str_of_list video_id title tags =
     (let (context_source, transcript_text) =
            transcript_or_metadata 8000 get_transcript str_of_list video_id title tags;
          prompt = prompt_app2 context_source transcript_text
      in case generate_content (ascii ''gemini-1.5-flash'') prompt of
           Inl (PyException msg) \<Rightarrow>
             Inr ([9888, 65039] @ ascii '' AI Error: '' @ str_of_exc (PyException msg),
                  ascii ''Error'')
         | Inl (PyBaseException msg) \<Rightarrow> Inl (PyBaseException msg)
         | Inr response_text \<Rightarrow> Inr (response_text, context_source))"

section \<open>Concrete inputs\<close>

text \<open>A video with the three counts given, and one whose statistics are all absent.\<close>

definition video_with_counts :: "int \<Rightarrow> int \<Rightarrow> int \<Rightarrow> item" where
  "video_with_counts v l c =
     \<lparr> item_id = ascii ''vid'',
       item_statistics = \<lparr> viewCount = Some v, likeCount = Some l, commentCount = Some c \<rparr>,
       item_snippet = \<lparr> snippet_title = ascii ''A title'', thumbnails_high_url = [],
                        publishedAt = ascii ''2024-01-01T00:00:00Z'', snippet_tags = None \<rparr> \<rparr>"

definition video_without_statistics :: item where
  "video_without_statistics =
     \<lparr> item_id = ascii ''hidden'',
       item_statistics = \<lparr> viewCount = None, likeCount = None, commentCount = None \<rparr>,
       item_snippet = \<lparr> snippet_title = ascii ''No counts'', thumbnails_high_url = [],
                        publishedAt = ascii ''2024-01-01T00:00:00Z'', snippet_tags = None \<rparr> \<rparr>"

text \<open>
  A transcript entry with the given text, and the rendering of a list of tags that holds
  for tags without quotes, backslashes or control characters: \<open>['a', 'b']\<close>.
\<close>

definition entry :: "pystr \<Rightarrow> transcript_entry" where
  "entry s = \<lparr> entry_text = s, entry_start = 0, entry_duration = 1 \<rparr>"

definition str_of_list_plain :: "pystr list \<Rightarrow> pystr" where
  "str_of_list_plain tags =
     ascii ''['' @ str_join (ascii '', '') (map (\<lambda>t. [39] @ t @ [39]) tags) @ ascii '']''"

section \<open>Rounding\<close>

lemma round_half_even_of_int: "round_half_even (of_int n) = n"
  by (simp add: round_half_even_def Let_def)

lemma round_half_even_near: "\<bar>of_int (round_half_even x) - x\<bar> \<le> 1/2"
  unfolding round_half_even_def Let_def by (auto simp: abs_if) linarith+

lemma round_half_even_ge: "of_int n \<le> x \<Longrightarrow> n \<le> round_half_even x"
proof -
  assume "of_int n \<le> x"
  then have "n \<le> \<lfloor>x\<rfloor>" by (simp add: le_floor_iff)
  then show ?thesis by (simp add: round_half_even_def Let_def)
qed

lemma round_half_even_le: "x \<le> of_int n \<Longrightarrow> round_half_even x \<le> n"
proof (cases "x = of_int n")
  case True
  then show ?thesis by (simp add: round_half_even_of_int)
next
  case False
  assume "x \<le> of_int n"
  with False have "x < of_int n" by simp
  then have "\<lfloor>x\<rfloor> < n" by (simp add: floor_less_iff)
  then show ?thesis by (simp add: round_half_even_def Let_def)
qed

subsection \<open>Rounding to a float\<close>

lemma scale_ok_double: "scale_ok y s \<Longrightarrow> y < 2 ^ 52 \<Longrightarrow> scale_ok (y * 2) (s / 2)"
proof -
  assume a: "scale_ok y s" and b: "y < 2 ^ 52"
  then obtain k :: nat where "s = 1 / 2 ^ k" by (auto simp: scale_ok_def)
  then have "s / 2 = 1 / 2 ^ Suc k" by simp
  then have "\<exists>k::nat. s / 2 = 1 / 2 ^ k" by blast
  with a b show ?thesis by (auto simp: scale_ok_def)
qed

lemma scale_ok_halve: "scale_ok y s \<Longrightarrow> 2 ^ 53 \<le> y \<Longrightarrow> scale_ok (y / 2) (s * 2)"
proof -
  assume a: "scale_ok y s" and b: "2 ^ 53 \<le> y"
  have one: "1 \<le> s" using a b by (auto simp: scale_ok_def)
  have "\<exists>k::nat. s = 2 ^ k"
  proof -
    from a consider k :: nat where "s = 1 / 2 ^ k" | k :: nat where "s = 2 ^ k"
      by (auto simp: scale_ok_def)
    then show ?thesis
    proof cases
      case 1
      from one have "1 \<le> 1 / (2::real) ^ k" unfolding 1 .
      then have "(2::real) ^ k \<le> 1" by (simp add: le_divide_eq_1_pos)
      moreover have "(1::real) \<le> 2 ^ k" by simp
      ultimately have "(2::real) ^ k = 1" by simp
      with 1 have "s = 2 ^ 0" by simp
      then show ?thesis by blast
    next
      case 2
      then show ?thesis by blast
    qed
  qed
  then obtain k :: nat where "s = 2 ^ k" by blast
  then have "s * 2 = 2 ^ Suc k" by simp
  then have "\<exists>k::nat. s * 2 = 2 ^ k" by blast
  moreover have "1 < s * 2" using one by simp
  moreover have "2 ^ 52 \<le> y / 2" using b by simp
  moreover have "0 \<le> y / 2" using a by (simp add: scale_ok_def)
  ultimately show ?thesis by (simp add: scale_ok_def)
qed

lemma normalise_inv:
  "normalise n y s = (y', s') \<Longrightarrow> scale_ok y s \<Longrightarrow> y' * s' = y * s \<and> scale_ok y' s'"
proof (induction n arbitrary: y s)
  case 0
  then show ?case by simp
next
  case (Suc n)
  show ?case
  proof (cases "y < 2 ^ 52")
    case True
    with Suc.prems have "normalise n (y * 2) (s / 2) = (y', s')" by simp
    from Suc.IH [OF this scale_ok_double [OF Suc.prems(2) True]] show ?thesis by simp
  next
    case False
    show ?thesis
    proof (cases "2 ^ 53 \<le> y")
      case True
      with False Suc.prems have "normalise n (y / 2) (s * 2) = (y', s')" by simp
      from Suc.IH [OF this scale_ok_halve [OF Suc.prems(2) True]] show ?thesis by simp
    next
      case F2: False
      with False Suc.prems show ?thesis by simp
    qed
  qed
qed

lemma scale_ok_start: "scale_ok \<bar>x\<bar> 1"
proof -
  have "(1::real) = 1 / 2 ^ 0" by simp
  then have "\<exists>k::nat. (1::real) = 1 / 2 ^ k" by blast
  then show ?thesis by (simp add: scale_ok_def)
qed

lemma fl_0: "fl 0 = 0"
  by (simp add: fl_def)

lemma fl_nonneg: "0 \<le> x \<Longrightarrow> 0 \<le> fl x"
proof (cases "x = 0")
  case True
  then show ?thesis by (simp add: fl_def)
next
  case False
  assume "0 \<le> x"
  obtain y s where n: "normalise 1074 \<bar>x\<bar> 1 = (y, s)" by (cases "normalise 1074 \<bar>x\<bar> 1")
  from normalise_inv [OF n scale_ok_start] have ok: "scale_ok y s" by simp
  then have "0 \<le> y" "0 \<le> s" by (auto simp: scale_ok_def)
  then have "0 \<le> of_int (round_half_even y) * s"
    using round_half_even_ge [of 0 y] by simp
  with False \<open>0 \<le> x\<close> n show ?thesis by (simp add: fl_def)
qed

lemma pow2_gt_1: "(s::real) = 2 ^ k \<Longrightarrow> 1 < s \<Longrightarrow> 2 \<le> s"
  by (cases k) auto

lemma fl_le_int:
  assumes "x \<le> of_int c" and "0 \<le> c" and "c < 2 ^ 53"
  shows "fl x \<le> of_int c"
proof (cases "0 < x")
  case False
  then have "sgn x = 0 \<or> sgn x = -1" by (auto simp: sgn_if)
  obtain y s where n: "normalise 1074 \<bar>x\<bar> 1 = (y, s)" by (cases "normalise 1074 \<bar>x\<bar> 1")
  from normalise_inv [OF n scale_ok_start] have ok: "scale_ok y s" by simp
  then have "0 \<le> y" "0 \<le> s" by (auto simp: scale_ok_def)
  then have "0 \<le> of_int (round_half_even y) * s"
    using round_half_even_ge [of 0 y] by simp
  with False n have "fl x \<le> 0" by (auto simp: fl_def sgn_if)
  with assms(2) show ?thesis by simp
next
  case True
  obtain y s where n: "normalise 1074 \<bar>x\<bar> 1 = (y, s)" by (cases "normalise 1074 \<bar>x\<bar> 1")
  from normalise_inv [OF n scale_ok_start] have eq: "y * s = x" and ok: "scale_ok y s"
    using True by simp_all
  have flx: "fl x = of_int (round_half_even y) * s"
    using True n by (simp add: fl_def)
  from ok consider k :: nat where "s = 1 / 2 ^ k"
    | k :: nat where "s = 2 ^ k" "1 < s" "2 ^ 52 \<le> y"
    by (auto simp: scale_ok_def)
  then show ?thesis
  proof cases
    case 1
    with eq assms(1) have "y \<le> of_int (c * 2 ^ k)" by (simp add: field_simps)
    then have "round_half_even y \<le> c * 2 ^ k" by (rule round_half_even_le)
    then have "(of_int (round_half_even y) :: real) \<le> of_int c * 2 ^ k"
      by (metis of_int_le_iff of_int_mult of_int_numeral of_int_power)
    then have "of_int (round_half_even y) / 2 ^ k \<le> (of_int c :: real)"
      by (simp add: pos_divide_le_eq)
    moreover have "fl x = of_int (round_half_even y) / 2 ^ k"
      using flx 1 by simp
    ultimately show ?thesis by simp
  next
    case 2
    from 2 have "2 \<le> s" by (intro pow2_gt_1)
    with 2 have "2 ^ 52 * 2 \<le> y * s"
      using mult_mono [of "2 ^ 52" y 2 s] by simp
    with eq assms(1) have "(2::real) ^ 53 \<le> of_int c" by simp
    then have "(2::int) ^ 53 \<le> c" by (metis of_int_le_iff of_int_numeral of_int_power)
    with assms(3) show ?thesis by simp
  qed
qed

lemma fl_ge_int:
  assumes "of_int c \<le> x" and "0 \<le> c" and "c \<le> 2 ^ 53"
  shows "of_int c \<le> fl x"
proof (cases "x = 0")
  case True
  with assms show ?thesis by (simp add: fl_def)
next
  case False
  with assms have pos: "0 < x" by simp
  obtain y s where n: "normalise 1074 \<bar>x\<bar> 1 = (y, s)" by (cases "normalise 1074 \<bar>x\<bar> 1")
  from normalise_inv [OF n scale_ok_start] have eq: "y * s = x" and ok: "scale_ok y s"
    using pos by simp_all
  have flx: "fl x = of_int (round_half_even y) * s"
    using pos n by (simp add: fl_def)
  from ok consider k :: nat where "s = 1 / 2 ^ k"
    | k :: nat where "s = 2 ^ k" "1 < s" "2 ^ 52 \<le> y"
    by (auto simp: scale_ok_def)
  then show ?thesis
  proof cases
    case 1
    with eq assms(1) have "of_int (c * 2 ^ k) \<le> y" by (simp add: field_simps)
    then have "c * 2 ^ k \<le> round_half_even y" by (rule round_half_even_ge)
    then have "(of_int c :: real) * 2 ^ k \<le> of_int (round_half_even y)"
      by (metis of_int_le_iff of_int_mult of_int_numeral of_int_power)
    then have "(of_int c :: real) \<le> of_int (round_half_even y) / 2 ^ k"
      by (simp add: pos_le_divide_eq)
    moreover have "fl x = of_int (round_half_even y) / 2 ^ k"
      using flx 1 by simp
    ultimately show ?thesis by simp
  next
    case 2
    have "(of_int (2 ^ 52) :: real) \<le> y" using 2 by simp
    then have "2 ^ 52 \<le> round_half_even y" by (rule round_half_even_ge)
    then have "(2 ^ 52 :: real) \<le> of_int (round_half_even y)"
      by (metis of_int_le_iff of_int_numeral of_int_power)
    moreover from 2 have "2 \<le> s" by (intro pow2_gt_1)
    ultimately have "2 ^ 52 * 2 \<le> of_int (round_half_even y) * s"
      using mult_mono [of "2 ^ 52" "of_int (round_half_even y)" 2 s] by simp
    with flx have "(2::real) ^ 53 \<le> fl x" by simp
    moreover have "(of_int c :: real) \<le> 2 ^ 53"
      using assms(3) by (metis of_int_le_iff of_int_numeral of_int_power)
    ultimately show ?thesis by simp
  qed
qed

lemma fl_of_int: "0 \<le> n \<Longrightarrow> n < 2 ^ 53 \<Longrightarrow> fl (of_int n) = of_int n"
  using fl_le_int [of "of_int n" n] fl_ge_int [of n "of_int n"] by simp

lemma fl_numeral: "(numeral w :: int) < 2 ^ 53 \<Longrightarrow> fl (numeral w) = numeral w"
  using fl_of_int [of "numeral w"] by simp

lemma fl_1: "fl 1 = 1"
  using fl_of_int [of 1] by simp

text \<open>
  The value of \<open>fl\<close> at a number whose scale is known: \<open>k\<close> doublings bring it between
  \<open>2^52\<close> and \<open>2^53\<close>.
\<close>

lemma normalise_up:
  "k \<le> n \<Longrightarrow> 0 < y \<Longrightarrow> 2 ^ 52 \<le> y * 2 ^ k \<Longrightarrow> y * 2 ^ k < 2 ^ 53 \<Longrightarrow>
     normalise n y s = (y * 2 ^ k, s / 2 ^ k)"
proof (induction k arbitrary: n y s)
  case 0
  then show ?case by (cases n) simp_all
next
  case (Suc k)
  from Suc.prems(1) obtain m where n: "n = Suc m" and km: "k \<le> m"
    by (cases n) simp_all
  have "y * 2 \<le> y * 2 ^ Suc k"
    using Suc.prems(2) by simp
  with Suc.prems(4) have small: "y < 2 ^ 52" by simp
  have "normalise m (y * 2) (s / 2) = (y * 2 * 2 ^ k, s / 2 / 2 ^ k)"
    using Suc.prems by (intro Suc.IH km) (simp_all add: mult.assoc)
  with small n show ?case by (simp add: mult.assoc)
qed

lemma fl_eval:
  assumes "0 < x" and "k \<le> 1074" and "2 ^ 52 \<le> x * 2 ^ k" and "x * 2 ^ k < 2 ^ 53"
  shows "fl x = of_int (round_half_even (x * 2 ^ k)) / 2 ^ k"
  using assms normalise_up [of k 1074 x 1] by (simp add: fl_def)

subsection \<open>Rounding to two decimals\<close>

lemma py_round_nonneg: "0 \<le> x \<Longrightarrow> 0 \<le> py_round x n"
proof -
  assume "0 \<le> x"
  then have "0 \<le> round_half_even (x * 10 ^ n)"
    using round_half_even_ge [of 0 "x * 10 ^ n"] by simp
  then have "(0::real) \<le> of_int (round_half_even (x * 10 ^ n)) / 10 ^ n" by simp
  then show ?thesis unfolding py_round_def by (rule fl_nonneg)
qed

text \<open>
  Two decimals: the result is the float of a number of hundredths that lies within half a
  hundredth of the argument.
\<close>

lemma py_round_hundredths:
  "\<exists>k. py_round x 2 = fl (of_int k / 100) \<and> \<bar>of_int k / 100 - x\<bar> \<le> 1 / 200"
proof -
  have "\<bar>of_int (round_half_even (x * 100)) / 100 - x\<bar> \<le> 1 / 200"
    using round_half_even_near [of "x * 100"] by (simp add: field_simps abs_if split: if_splits)
  moreover have "py_round x 2 = fl (of_int (round_half_even (x * 100)) / 100)"
    by (simp add: py_round_def)
  ultimately show ?thesis by blast
qed

section \<open>The loop as a map\<close>

lemma foldl_loop_step:
  "foldl (loop_step rpm) (d, t) items =
     (d @ map (make_row rpm) items,
      t @ concat (map (\<lambda>it. get_default (snippet_tags (item_snippet it)) []) items))"
  by (induction items arbitrary: d t) (simp_all add: loop_step_def Let_def)

lemma virality_column_map:
  "virality_column data =
     map (\<lambda>d. np_round0 (np_mul (np_div (Virality_Raw d) (series_max (map Virality_Raw data))) 100)) data"
  by (simp add: virality_column_def Let_def o_def)

lemma add_virality_score_map:
  "add_virality_score data =
     map (\<lambda>d. row.extend d (scored_row.fields
            (np_round0 (np_mul (np_div (Virality_Raw d) (series_max (map Virality_Raw data))) 100)))) data"
  by (simp add: add_virality_score_def virality_column_map zip_map2 zip_same_conv_map o_def)

lemma get_market_data_map:
  "fst (get_market_data rpm items) =
     map (\<lambda>it. row.extend (make_row rpm it) (scored_row.fields
            (np_round0 (np_mul (np_div (Virality_Raw (make_row rpm it))
               (series_max (map (\<lambda>it. Virality_Raw (make_row rpm it)) items))) 100)))) items"
  by (simp add: get_market_data_def foldl_loop_step add_virality_score_map o_def)

lemma all_tags_get_market_data:
  "snd (get_market_data rpm items) =
     concat (map (\<lambda>it. get_default (snippet_tags (item_snippet it)) []) items)"
  by (simp add: get_market_data_def foldl_loop_step)

lemma extend_simps:
  "Virality_Score (row.extend d (scored_row.fields s)) = s"
  "Virality_Raw (row.extend d (scored_row.fields s)) = Virality_Raw d"
  "Engagement (row.extend d (scored_row.fields s)) = Engagement d"
  "Earnings (row.extend d (scored_row.fields s)) = Earnings d"
  "Views (row.extend d (scored_row.fields s)) = Views d"
  "Likes (row.extend d (scored_row.fields s)) = Likes d"
  "Comments (row.extend d (scored_row.fields s)) = Comments d"
  "Video_ID (row.extend d (scored_row.fields s)) = Video_ID d"
  by (simp_all add: row.defs scored_row.defs)

lemma make_row_simps:
  "Views (make_row rpm it) = get_default (viewCount (item_statistics it)) 0"
  "Likes (make_row rpm it) = get_default (likeCount (item_statistics it)) 0"
  "Comments (make_row rpm it) = get_default (commentCount (item_statistics it)) 0"
  "Engagement (make_row rpm it) =
     py_round (engagement_of (Views (make_row rpm it)) (Likes (make_row rpm it))
       (Comments (make_row rpm it))) 2"
  "Earnings (make_row rpm it) = py_round (revenue_of rpm (Views (make_row rpm it))) 2"
  "Virality_Raw (make_row rpm it) =
     raw_score_of (Views (make_row rpm it)) (Likes (make_row rpm it)) (Comments (make_row rpm it))"
  "Video_ID (make_row rpm it) = item_id it"
  by (simp_all add: make_row_def Let_def)

lemma set_get_market_data:
  "r \<in> set (fst (get_market_data rpm items)) \<Longrightarrow>
     \<exists>it \<in> set items. \<exists>s. r = row.extend (make_row rpm it) (scored_row.fields s)"
  by (auto simp: get_market_data_map)

lemma wf_item_counts:
  assumes "wf_item it"
  shows "0 \<le> Views (make_row rpm it)" "0 \<le> Likes (make_row rpm it)"
    "0 \<le> Comments (make_row rpm it)"
  using assms
  by (auto simp: wf_item_def nonneg_opt_def make_row_simps get_default_def split: option.splits)

text \<open>The facts that evaluate the pipeline on the concrete records.\<close>

lemmas eval_items = get_market_data_map extend_simps make_row_simps video_with_counts_def
  video_without_statistics_def get_default_def

lemmas eval_rows = eval_items raw_score_of_def series_max_def fl_0 fl_numeral

section \<open>Result ordering\<close>

text \<open>
  Claim C8. For every sequence of input records, the video identifiers of the rows
  returned by \<open>get_market_data\<close> are the identifiers of the input, in the same order:
  neither the scoring nor the normalisation reorders, and nothing sorts by a score.
\<close>

theorem get_market_data_preserves_order:
  "map Video_ID (fst (get_market_data rpm items)) = map item_id items"
  by (simp add: get_market_data_map extend_simps make_row_simps o_def)

section \<open>Engagement and earnings\<close>

lemma engagement_of_nonneg:
  "0 \<le> likes \<Longrightarrow> 0 \<le> comments \<Longrightarrow> 0 \<le> engagement_of views likes comments"
proof (cases "views > 0")
  case True
  assume "0 \<le> likes" "0 \<le> comments"
  with True have "(0::real) \<le> of_int (likes + comments) / of_int views" by simp
  then have "0 \<le> fl (of_int (likes + comments) / of_int views) * 100"
    using fl_nonneg by fastforce
  then have "0 \<le> fl (fl (of_int (likes + comments) / of_int views) * 100)"
    by (rule fl_nonneg)
  with True show ?thesis by (simp add: engagement_of_def)
next
  case False
  then show ?thesis by (simp add: engagement_of_def)
qed

lemma revenue_of_nonneg: "0 \<le> views \<Longrightarrow> 0 \<le> rpm \<Longrightarrow> 0 \<le> revenue_of rpm views"
proof -
  assume "0 \<le> views" "0 \<le> rpm"
  then have "(0::real) \<le> of_int views / 1000" by simp
  then have "0 \<le> fl (of_int views / 1000)" by (rule fl_nonneg)
  with \<open>0 \<le> rpm\<close> have "0 \<le> fl (of_int views / 1000) * rpm" by simp
  then show ?thesis unfolding revenue_of_def by (rule fl_nonneg)
qed

lemma py_round_0: "py_round 0 n = 0"
  by (simp add: py_round_def round_half_even_def fl_0)

text \<open>
  The float arithmetic on the numbers used below, each step by its scale. The values are
  the ones Python prints: \<open>60 / 1000\<close> is \<open>0.06\<close> and \<open>0.06 * 100\<close> is \<open>6.0\<close>;
  \<open>5 / 1000\<close> is \<open>0.005\<close>, \<open>0.005 * 3.0\<close> is \<open>0.015\<close> (a float just below fifteen
  thousandths) and \<open>round(0.015, 2)\<close> is \<open>0.01\<close>; \<open>23 / 160\<close> is \<open>0.14375\<close>,
  \<open>0.14375 * 100\<close> is \<open>14.374999999999998\<close> and its \<open>round(..., 2)\<close> is \<open>14.37\<close>.
\<close>

lemma engagement_of_1000_50_10: "engagement_of 1000 50 10 = 6"
proof -
  have a: "fl (of_int (50 + 10) / of_int 1000) = 8646911284551352 / 2 ^ 57"
    by (subst fl_eval [of _ 57]) (simp_all add: round_half_even_def Let_def)
  have b: "fl (8646911284551352 / 2 ^ 57 * 100) = 6"
    by (subst fl_eval [of _ 50]) (simp_all add: round_half_even_def Let_def)
  show ?thesis
    by (simp only: engagement_of_def a b) simp
qed

lemma py_round_engagement_of_1000_50_10: "py_round (engagement_of 1000 50 10) 2 = 6"
proof -
  have r: "round_half_even (6 * 10 ^ 2) = 600"
    by (simp add: round_half_even_def)
  have f: "fl (of_int 600 / 10 ^ 2) = 6"
    using fl_numeral [of "num.Bit0 (num.Bit1 num.One)"] by simp
  show ?thesis
    by (simp only: py_round_def engagement_of_1000_50_10 r f)
qed

lemma revenue_of_3_5: "revenue_of 3 5 = 8646911284551352 / 2 ^ 59"
proof -
  have a: "fl (of_int 5 / 1000) = 5764607523034235 / 2 ^ 60"
    by (subst fl_eval [of _ 60]) (simp_all add: round_half_even_def Let_def)
  have b: "fl (5764607523034235 / 2 ^ 60 * 3) = 8646911284551352 / 2 ^ 59"
    by (subst fl_eval [of _ 59]) (simp_all add: round_half_even_def Let_def)
  show ?thesis
    by (simp only: revenue_of_def a b)
qed

lemma py_round_revenue_of_3_5: "py_round (revenue_of 3 5) 2 = 5764607523034235 / 2 ^ 59"
proof -
  have r: "round_half_even (8646911284551352 / 2 ^ 59 * 10 ^ 2) = 1"
    by (simp add: round_half_even_def Let_def)
  have f: "fl (of_int 1 / 10 ^ 2) = 5764607523034235 / 2 ^ 59"
    by (subst fl_eval [of _ 59]) (simp_all add: round_half_even_def Let_def)
  show ?thesis
    by (simp only: py_round_def revenue_of_3_5 r f)
qed

lemma engagement_of_160_23_0: "engagement_of 160 23 0 = 8092405580431359 / 2 ^ 49"
proof -
  have a: "fl (of_int (23 + 0) / of_int 160) = 5179139571476070 / 2 ^ 55"
    by (subst fl_eval [of _ 55]) (simp_all add: round_half_even_def Let_def)
  have b: "fl (5179139571476070 / 2 ^ 55 * 100) = 8092405580431359 / 2 ^ 49"
    by (subst fl_eval [of _ 49]) (simp_all add: round_half_even_def Let_def)
  show ?thesis
    by (simp only: engagement_of_def a b) simp
qed

lemma py_round_engagement_of_160_23_0:
  "py_round (engagement_of 160 23 0) 2 = 8089590830664253 / 2 ^ 49"
proof -
  have r: "round_half_even (8092405580431359 / 2 ^ 49 * 10 ^ 2) = 1437"
    by (simp add: round_half_even_def Let_def)
  have f: "fl (of_int 1437 / 10 ^ 2) = 8089590830664253 / 2 ^ 49"
    by (subst fl_eval [of _ 49]) (simp_all add: round_half_even_def Let_def)
  show ?thesis
    by (simp only: py_round_def engagement_of_160_23_0 r f)
qed

text \<open>
  Claim C10. The \<open>Engagement\<close> and \<open>Earnings\<close> stored in each row are the values of the
  formulas rounded to two decimals, not the values themselves: each is the float of a
  whole number of hundredths that lies within half a hundredth of the value the float
  formula gives, \<open>(likes + comments) / views * 100\<close> when \<open>views > 0\<close> (0 otherwise) and
  \<open>views / 1000 * rpm\<close>. For 5 views and an RPM of 3.0 the formula gives the float
  \<open>0.015\<close> and the row stores \<open>0.01\<close>; for 23 likes on 160 views the formula gives
  \<open>14.374999999999998\<close> and the row stores \<open>14.37\<close>.
\<close>

theorem stored_metrics_are_rounded:
  "list_all2
     (\<lambda>r it. let views = get_default (viewCount (item_statistics it)) 0;
                  likes = get_default (likeCount (item_statistics it)) 0;
                  comments = get_default (commentCount (item_statistics it)) 0;
                  engagement =
                    (if views > 0 then fl (fl (of_int (likes + comments) / of_int views) * 100)
                     else 0);
                  revenue = fl (fl (of_int views / 1000) * rpm)
              in (\<exists>k. Engagement r = fl (of_int k / 100) \<and> \<bar>of_int k / 100 - engagement\<bar> \<le> 1 / 200)
               \<and> (\<exists>k. Earnings r = fl (of_int k / 100) \<and> \<bar>of_int k / 100 - revenue\<bar> \<le> 1 / 200))
     (fst (get_market_data rpm items)) items
   \<and> map Earnings (fst (get_market_data 3 [video_with_counts 5 0 0]))
       = [5764607523034235 / 2 ^ 59]
   \<and> fl (fl (of_int 5 / 1000) * 3) = 8646911284551352 / 2 ^ 59
   \<and> map Engagement (fst (get_market_data 3 [video_with_counts 160 23 0]))
       = [8089590830664253 / 2 ^ 49]
   \<and> fl (fl (of_int (23 + 0) / of_int 160) * 100) = 8092405580431359 / 2 ^ 49"
proof -
  have general: "list_all2
     (\<lambda>r it. let views = get_default (viewCount (item_statistics it)) 0;
                  likes = get_default (likeCount (item_statistics it)) 0;
                  comments = get_default (commentCount (item_statistics it)) 0;
                  engagement =
                    (if views > 0 then fl (fl (of_int (likes + comments) / of_int views) * 100)
                     else 0);
                  revenue = fl (fl (of_int views / 1000) * rpm)
              in (\<exists>k. Engagement r = fl (of_int k / 100) \<and> \<bar>of_int k / 100 - engagement\<bar> \<le> 1 / 200)
               \<and> (\<exists>k. Earnings r = fl (of_int k / 100) \<and> \<bar>of_int k / 100 - revenue\<bar> \<le> 1 / 200))
     (fst (get_market_data rpm items)) items"
    unfolding get_market_data_map list_all2_map1
  proof (rule list_all2_refl)
    fix it :: item
    let ?views = "get_default (viewCount (item_statistics it)) 0"
    let ?likes = "get_default (likeCount (item_statistics it)) 0"
    let ?comments = "get_default (commentCount (item_statistics it)) 0"
    show "let views = ?views; likes = ?likes; comments = ?comments;
              engagement =
                (if views > 0 then fl (fl (of_int (likes + comments) / of_int views) * 100)
                 else 0);
              revenue = fl (fl (of_int views / 1000) * rpm)
          in (\<exists>k. Engagement (row.extend (make_row rpm it) (scored_row.fields
                  (np_round0 (np_mul (np_div (Virality_Raw (make_row rpm it))
                     (series_max (map (\<lambda>it. Virality_Raw (make_row rpm it)) items))) 100))))
                = fl (of_int k / 100) \<and> \<bar>of_int k / 100 - engagement\<bar> \<le> 1 / 200)
           \<and> (\<exists>k. Earnings (row.extend (make_row rpm it) (scored_row.fields
                  (np_round0 (np_mul (np_div (Virality_Raw (make_row rpm it))
                     (series_max (map (\<lambda>it. Virality_Raw (make_row rpm it)) items))) 100))))
                = fl (of_int k / 100) \<and> \<bar>of_int k / 100 - revenue\<bar> \<le> 1 / 200)"
      using py_round_hundredths [of "engagement_of ?views ?likes ?comments"]
        py_round_hundredths [of "revenue_of rpm ?views"]
      by (simp add: extend_simps make_row_simps(1-5) Let_def
          engagement_of_def [symmetric] revenue_of_def [symmetric])
  qed
  have earn: "map Earnings (fst (get_market_data 3 [video_with_counts 5 0 0]))
      = [5764607523034235 / 2 ^ 59]"
  proof -
    have "map Earnings (fst (get_market_data 3 [video_with_counts 5 0 0]))
        = [py_round (revenue_of 3 5) 2]"
      by (simp add: get_market_data_map extend_simps make_row_simps(1-5) video_with_counts_def
          get_default_def)
    then show ?thesis by (simp only: py_round_revenue_of_3_5)
  qed
  have eng: "map Engagement (fst (get_market_data 3 [video_with_counts 160 23 0]))
      = [8089590830664253 / 2 ^ 49]"
  proof -
    have "map Engagement (fst (get_market_data 3 [video_with_counts 160 23 0]))
        = [py_round (engagement_of 160 23 0) 2]"
      by (simp add: get_market_data_map extend_simps make_row_simps(1-5) video_with_counts_def
          get_default_def)
    then show ?thesis by (simp only: py_round_engagement_of_160_23_0)
  qed
  have "fl (fl (of_int 5 / 1000) * 3) = 8646911284551352 / 2 ^ 59"
    using revenue_of_3_5 by (simp only: revenue_of_def)
  moreover have "fl (fl (of_int (23 + 0) / of_int 160) * 100) = 8092405580431359 / 2 ^ 49"
    using engagement_of_160_23_0 by (simp add: engagement_of_def)
  ultimately show ?thesis using general earn eng by blast
qed

lemma Engagement_nonneg:
  assumes "list_all wf_item items" and "r \<in> set (fst (get_market_data rpm items))"
  shows "0 \<le> Engagement r"
proof -
  from assms(2) obtain it s where it: "it \<in> set items"
    and r: "r = row.extend (make_row rpm it) (scored_row.fields s)"
    using set_get_market_data by blast
  from assms(1) it have wf: "wf_item it" by (simp add: list_all_iff)
  have "0 \<le> engagement_of (Views (make_row rpm it)) (Likes (make_row rpm it))
      (Comments (make_row rpm it))"
    using wf by (intro engagement_of_nonneg wf_item_counts)
  then show ?thesis
    by (simp add: r extend_simps make_row_simps(4) py_round_nonneg)
qed

lemma Engagement_zero_views:
  assumes "r \<in> set (fst (get_market_data rpm items))" and "Views r = 0"
  shows "Engagement r = 0"
proof -
  from assms(1) obtain it s where
    r: "r = row.extend (make_row rpm it) (scored_row.fields s)"
    using set_get_market_data by blast
  with assms(2) show ?thesis
    by (simp add: extend_simps make_row_simps(4) engagement_of_def py_round_0)
qed

text \<open>
  Claim C7, as amended. For every row computed from records with non-negative counts,
  \<open>Engagement\<close> is at least 0, and it is 0 whenever the record has no views, whatever its
  likes and comments. (The converse is not part of the statement: a record with views
  and neither likes nor comments has engagement 0 as well.)
\<close>

theorem engagement_nonneg_and_zero_without_views:
  assumes "list_all wf_item items" and "r \<in> set (fst (get_market_data rpm items))"
  shows "0 \<le> Engagement r \<and> (Views r = 0 \<longrightarrow> Engagement r = 0)"
  using Engagement_nonneg [OF assms] Engagement_zero_views [OF assms(2)] by simp

theorem engagement_nonneg_and_zero_without_views_witness:
  "list_all wf_item [video_with_counts 0 7 2, video_with_counts 1000 50 10]
   \<and> map Views (fst (get_market_data 3 [video_with_counts 0 7 2, video_with_counts 1000 50 10]))
       = [0, 1000]
   \<and> map Engagement (fst (get_market_data 3 [video_with_counts 0 7 2, video_with_counts 1000 50 10]))
       = [0, 6]"
proof -
  let ?items = "[video_with_counts 0 7 2, video_with_counts 1000 50 10]"
  have wf: "list_all wf_item ?items"
    by (simp add: wf_item_def nonneg_opt_def video_with_counts_def)
  have v: "map Views (fst (get_market_data 3 ?items)) = [0, 1000]"
    by (simp add: eval_items)
  have len: "length (fst (get_market_data 3 ?items)) = 2"
    by (simp add: get_market_data_map)
  have mem0: "fst (get_market_data 3 ?items) ! 0 \<in> set (fst (get_market_data 3 ?items))"
    by (rule nth_mem) (simp add: len)
  have v0: "Views (fst (get_market_data 3 ?items) ! 0) = 0"
    by (simp add: eval_items)
  have e0: "Engagement (fst (get_market_data 3 ?items) ! 0) = 0"
    using engagement_nonneg_and_zero_without_views [OF wf mem0] v0 by simp
  have e1: "Engagement (fst (get_market_data 3 ?items) ! 1) = 6"
    by (simp add: eval_items py_round_engagement_of_1000_50_10)
  have "map Engagement (fst (get_market_data 3 ?items)) = [0, 6]"
    using e0 e1 len by (simp add: list_eq_iff_nth_eq less_Suc_eq numeral_2_eq_2)
  with wf v show ?thesis by simp
qed

text \<open>
  The claim as stated, with "exactly when", fails: a record with 100 views, no likes and
  no comments has engagement 0 although its views are not 0.
\<close>

theorem engagement_zero_with_views_counterexample:
  "wf_item (video_with_counts 100 0 0)
   \<and> map Engagement (fst (get_market_data 3 [video_with_counts 100 0 0])) = [0]
   \<and> map Views (fst (get_market_data 3 [video_with_counts 100 0 0])) = [100]"
  by (simp add: eval_items wf_item_def nonneg_opt_def engagement_of_def fl_0 py_round_0)

section \<open>The virality score\<close>

lemma series_max_Max: "xs \<noteq> [] \<Longrightarrow> series_max xs = Finite (Max (set xs))"
proof (cases xs)
  case Nil
  assume "xs \<noteq> []"
  with Nil show ?thesis by simp
next
  case (Cons a list)
  then show ?thesis using Max.set_eq_fold [of a list] by (simp add: series_max_def)
qed

lemma raw_score_of_nonneg:
  assumes "0 \<le> views" and "0 \<le> likes" and "0 \<le> comments"
  shows "0 \<le> raw_score_of views likes comments"
proof -
  have "(0::real) \<le> of_int views" using assms(1) by simp
  then have "0 \<le> fl (of_int views)" by (rule fl_nonneg)
  then have "0 \<le> fl (of_int views) * 0.5" by simp
  then have v: "0 \<le> fl (fl (of_int views) * 0.5)" by (rule fl_nonneg)
  have "(0::real) \<le> of_int (likes * 50)" using assms(2) by simp
  then have l: "0 \<le> fl (of_int (likes * 50))" by (rule fl_nonneg)
  have "(0::real) \<le> of_int (comments * 100)" using assms(3) by simp
  then have c: "0 \<le> fl (of_int (comments * 100))" by (rule fl_nonneg)
  from v l have "0 \<le> fl (fl (of_int views) * 0.5) + fl (of_int (likes * 50))"
    by simp
  then have "0 \<le> fl (fl (fl (of_int views) * 0.5) + fl (of_int (likes * 50)))"
    by (rule fl_nonneg)
  with c have "0 \<le> fl (fl (fl (of_int views) * 0.5) + fl (of_int (likes * 50)))
      + fl (of_int (comments * 100))"
    by simp
  then show ?thesis
    unfolding raw_score_of_def by (rule fl_nonneg)
qed

lemma Virality_Raw_get_market_data:
  "map Virality_Raw (fst (get_market_data rpm items)) =
     map (\<lambda>it. Virality_Raw (make_row rpm it)) items"
  by (simp add: get_market_data_map extend_simps o_def)

text \<open>The score of a row: its raw score over the largest raw score, times 100, rounded.\<close>

lemma Virality_Score_row:
  assumes "r \<in> set (fst (get_market_data rpm items))"
  shows "Virality_Score r =
     np_round0 (np_mul (np_div (Virality_Raw r)
        (Finite (Max (Virality_Raw ` set (fst (get_market_data rpm items)))))) 100)"
proof -
  let ?raw = "map (\<lambda>it. Virality_Raw (make_row rpm it)) items"
  from assms have ne: "items \<noteq> []" by (auto simp: get_market_data_map)
  then have "series_max ?raw = Finite (Max (set ?raw))"
    by (simp add: series_max_Max)
  moreover have "set ?raw = Virality_Raw ` set (fst (get_market_data rpm items))"
    using Virality_Raw_get_market_data [of rpm items] by (metis set_map)
  ultimately have m:
    "series_max ?raw = Finite (Max (Virality_Raw ` set (fst (get_market_data rpm items))))"
    by simp
  from assms obtain it where "it \<in> set items"
    and "r = row.extend (make_row rpm it) (scored_row.fields
            (np_round0 (np_mul (np_div (Virality_Raw (make_row rpm it)) (series_max ?raw)) 100)))"
    by (auto simp: get_market_data_map)
  then show ?thesis
    by (simp add: extend_simps m)
qed

lemma Virality_Raw_nonneg:
  assumes "list_all wf_item items" and "r \<in> set (fst (get_market_data rpm items))"
  shows "0 \<le> Virality_Raw r"
proof -
  from assms(2) obtain it s where it: "it \<in> set items"
    and r: "r = row.extend (make_row rpm it) (scored_row.fields s)"
    using set_get_market_data by blast
  from assms(1) it have "wf_item it" by (simp add: list_all_iff)
  then show ?thesis
    by (simp add: r extend_simps make_row_simps(6) raw_score_of_nonneg wf_item_counts)
qed

text \<open>
  With non-negative counts and a largest raw score of 0, every raw score is 0 and every
  row gets \<open>0.0 / 0.0\<close>: the code has no branch for this case.
\<close>

lemma zero_max_scores_nan:
  assumes "list_all wf_item items" and "r \<in> set (fst (get_market_data rpm items))"
    and "Max (Virality_Raw ` set (fst (get_market_data rpm items))) = 0"
  shows "Virality_Score r = NaN"
proof -
  have "Virality_Raw r \<le> Max (Virality_Raw ` set (fst (get_market_data rpm items)))"
    using assms(2) by simp
  with Virality_Raw_nonneg [OF assms(1,2)] have "Virality_Raw r = 0"
    using assms(3) by simp
  then show ?thesis
    by (simp add: Virality_Score_row [OF assms(2)] assms(3))
qed

text \<open>
  Claim C2, evaluated. For a video without statistics followed by one with no views,
  likes or comments, every raw score is 0, the largest is 0, and the scores the code
  returns are \<open>nan\<close>, not 0; \<open>zero_max_scores_nan\<close> shows the same for every such input.
\<close>

theorem zero_engagement_set_scores_nan:
  "map Virality_Raw (fst (get_market_data 3 [video_without_statistics, video_with_counts 0 0 0]))
     = [0, 0]
   \<and> map Virality_Score (fst (get_market_data 3 [video_without_statistics, video_with_counts 0 0 0]))
     = [NaN, NaN]
   \<and> NaN \<noteq> Finite 0"
  by (simp add: eval_rows)

text \<open>
  Claim C4, as amended. For every input whose largest raw score is not 0, a row whose
  raw score is the largest has the virality score 100 exactly.
\<close>

theorem top_record_scores_100:
  assumes "r \<in> set (fst (get_market_data rpm items))"
    and "Virality_Raw r = Max (Virality_Raw ` set (fst (get_market_data rpm items)))"
    and "Max (Virality_Raw ` set (fst (get_market_data rpm items))) \<noteq> 0"
  shows "Virality_Score r = Finite 100"
proof -
  have "fl 100 = 100"
    using fl_numeral [of "num.Bit0 (num.Bit0 (num.Bit1 (num.Bit0 (num.Bit0 (num.Bit1 num.One)))))"]
    by simp
  with assms(2,3) show ?thesis
    by (simp add: Virality_Score_row [OF assms(1)] fl_1 round_half_even_def)
qed

theorem top_record_scores_100_witness:
  "map Virality_Raw
     (fst (get_market_data 3 [video_with_counts 1000 50 10, video_with_counts 100 5 50]))
     = [4000, 5300]
   \<and> Virality_Score
     (fst (get_market_data 3 [video_with_counts 1000 50 10, video_with_counts 100 5 50]) ! 1)
     = Finite 100"
proof -
  let ?rows = "fst (get_market_data 3 [video_with_counts 1000 50 10, video_with_counts 100 5 50])"
  have raw: "map Virality_Raw ?rows = [4000, 5300]"
    by (simp add: eval_rows)
  have len: "length ?rows = 2"
    by (simp add: get_market_data_map)
  have mem: "?rows ! 1 \<in> set ?rows"
    by (rule nth_mem) (simp add: len)
  have "Virality_Raw ` set ?rows = set (map Virality_Raw ?rows)"
    by simp
  then have mx: "Max (Virality_Raw ` set ?rows) = 5300"
    by (simp only: raw) simp
  have r1: "Virality_Raw (?rows ! 1) = 5300"
    by (simp add: eval_rows)
  have "Virality_Score (?rows ! 1) = Finite 100"
    using top_record_scores_100 [OF mem] r1 mx by simp
  with raw show ?thesis by simp
qed

text \<open>
  The claim as stated covers every non-empty input; for the single record without views,
  likes or comments the largest raw score is that record's, and its score is not 100.
\<close>

theorem top_record_of_zero_set_counterexample:
  "map Virality_Raw (fst (get_market_data 3 [video_with_counts 0 0 0])) = [0]
   \<and> map Virality_Score (fst (get_market_data 3 [video_with_counts 0 0 0])) = [NaN]
   \<and> NaN \<noteq> Finite 100"
  by (simp add: eval_rows)

text \<open>
  The invariant of a scored row, where the code keeps it: engagement and earnings are
  never negative, and the score lies in the range 0 to 100 when the largest raw score
  is not 0.
\<close>

lemma scored_video_invariant:
  assumes "list_all wf_item items" and "0 < rpm" and "r \<in> set (fst (get_market_data rpm items))"
  shows "0 \<le> Engagement r" and "0 \<le> Earnings r"
    and "Max (Virality_Raw ` set (fst (get_market_data rpm items))) \<noteq> 0 \<Longrightarrow>
           score_in_range (Virality_Score r)"
proof -
  from assms(3) obtain it s where it: "it \<in> set items"
    and r: "r = row.extend (make_row rpm it) (scored_row.fields s)"
    using set_get_market_data by blast
  from assms(1) it have wf: "wf_item it" by (simp add: list_all_iff)
  show "0 \<le> Engagement r"
    using Engagement_nonneg [OF assms(1) assms(3)] .
  have "0 \<le> revenue_of rpm (Views (make_row rpm it))"
    using wf_item_counts(1) [OF wf, of rpm] assms(2) by (intro revenue_of_nonneg) simp_all
  then show "0 \<le> Earnings r"
    by (simp add: r extend_simps make_row_simps(5) py_round_nonneg)
  let ?m = "Max (Virality_Raw ` set (fst (get_market_data rpm items)))"
  assume m: "?m \<noteq> 0"
  have nonneg: "0 \<le> Virality_Raw r"
    using Virality_Raw_nonneg [OF assms(1,3)] .
  have le: "Virality_Raw r \<le> ?m"
    using assms(3) by simp
  with nonneg m have pos: "0 < ?m" by simp
  have q0: "0 \<le> fl (Virality_Raw r / ?m)"
    using nonneg pos by (intro fl_nonneg) simp
  have "Virality_Raw r / ?m \<le> of_int 1"
    using le pos by simp
  then have "fl (Virality_Raw r / ?m) \<le> of_int 1"
    by (rule fl_le_int) simp_all
  then have q1: "fl (Virality_Raw r / ?m) \<le> 1" by simp
  have p0: "0 \<le> fl (fl (Virality_Raw r / ?m) * 100)"
    using q0 by (intro fl_nonneg) simp
  have "fl (Virality_Raw r / ?m) * 100 \<le> of_int 100"
    using q1 by simp
  then have "fl (fl (Virality_Raw r / ?m) * 100) \<le> of_int 100"
    by (rule fl_le_int) simp_all
  then have p1: "fl (fl (Virality_Raw r / ?m) * 100) \<le> 100" by simp
  have lo: "0 \<le> round_half_even (fl (fl (Virality_Raw r / ?m) * 100))"
    using p0 round_half_even_ge [of 0] by simp
  have hi: "round_half_even (fl (fl (Virality_Raw r / ?m) * 100)) \<le> 100"
    using p1 round_half_even_le [of _ 100] by simp
  show "score_in_range (Virality_Score r)"
    using lo hi m by (simp add: Virality_Score_row [OF assms(3)] score_in_range_def)
qed

text \<open>
  Claim C5, evaluated. With an RPM of 3 and the single record without statistics, the
  score of the returned row is \<open>nan\<close>, which is not in the range 0 to 100.
\<close>

theorem zero_engagement_score_out_of_range:
  "(0::real) < 3 \<and> wf_item video_without_statistics
   \<and> map Virality_Score (fst (get_market_data 3 [video_without_statistics])) = [NaN]
   \<and> \<not> score_in_range NaN"
  by (simp add: eval_rows score_in_range_def wf_item_def nonneg_opt_def)

section \<open>The most common tags\<close>

lemma Counter_snoc:
  "Counter (xs @ [x]) = AList.update x (dict_get (Counter xs) x 0 + 1) (Counter xs)"
  by (simp add: Counter_def count_elements_def)

lemma first_occurrence_less: "x \<in> set xs \<Longrightarrow> first_occurrence x xs < length xs"
  by (induction xs) auto

lemma first_occurrence_append_mem:
  "x \<in> set xs \<Longrightarrow> first_occurrence x (xs @ ys) = first_occurrence x xs"
  by (induction xs) auto

lemma first_occurrence_append_new:
  "x \<notin> set xs \<Longrightarrow> first_occurrence x (xs @ [x]) = length xs"
  by (induction xs) auto

text \<open>The keys of a counter are the distinct elements counted.\<close>

lemma keys_Counter: "set (map fst (Counter xs)) = set xs"
proof (induction xs rule: rev_induct)
  case Nil
  show ?case by (simp add: Counter_def count_elements_def)
next
  case (snoc x xs)
  then show ?case by (auto simp: Counter_snoc update_keys)
qed

lemma distinct_Counter: "distinct (map fst (Counter xs))"
proof (induction xs rule: rev_induct)
  case Nil
  show ?case by (simp add: Counter_def count_elements_def)
next
  case (snoc x xs)
  then show ?case by (simp add: Counter_snoc distinct_update)
qed

text \<open>They are kept in the order of their first occurrence.\<close>

lemma Counter_first_occurrence_order:
  "sorted_wrt (\<lambda>a b. first_occurrence a xs < first_occurrence b xs) (map fst (Counter xs))"
proof (induction xs rule: rev_induct)
  case Nil
  show ?case by (simp add: Counter_def count_elements_def)
next
  case (snoc x xs)
  have old: "sorted_wrt (\<lambda>a b. first_occurrence a (xs @ [x]) < first_occurrence b (xs @ [x]))
      (map fst (Counter xs))"
  proof (rule sorted_wrt_mono_rel [OF _ snoc.IH])
    fix a b
    assume "a \<in> set (map fst (Counter xs))" "b \<in> set (map fst (Counter xs))"
      and "first_occurrence a xs < first_occurrence b xs"
    then show "first_occurrence a (xs @ [x]) < first_occurrence b (xs @ [x])"
      by (simp only: keys_Counter first_occurrence_append_mem)
  qed
  show ?case
  proof (cases "x \<in> set xs")
    case True
    with old show ?thesis
      by (simp add: Counter_snoc update_keys keys_Counter [simplified])
  next
    case False
    have "first_occurrence a (xs @ [x]) < first_occurrence x (xs @ [x])"
      if "a \<in> set xs" for a
      using that False
      by (simp add: first_occurrence_append_new first_occurrence_append_mem
          first_occurrence_less)
    then have "\<forall>a \<in> set (map fst (Counter xs)).
        first_occurrence a (xs @ [x]) < first_occurrence x (xs @ [x])"
      by (simp only: keys_Counter) simp
    with old False show ?thesis
      by (simp add: Counter_snoc update_keys keys_Counter [simplified] sorted_wrt_append)
  qed
qed

text \<open>Each key is stored with the number of its occurrences.\<close>

lemma map_of_Counter:
  "map_of (Counter xs) k = (if k \<in> set xs then Some (count_list xs k) else None)"
proof (induction xs arbitrary: k rule: rev_induct)
  case Nil
  show ?case by (simp add: Counter_def count_elements_def)
next
  case (snoc x xs)
  then show ?case
    by (simp add: Counter_snoc update_conv' dict_get_def)
qed

text \<open>
  A stable sort keeps, among the entries of one key, the order they had: if the input is
  ordered by \<open>R\<close>, entries of equal key are ordered by \<open>R\<close> in the output.
\<close>

lemma sorted_wrt_within_groups:
  "(\<And>k. sorted_wrt R (filter (\<lambda>y. f y = k) ys)) \<Longrightarrow>
     sorted_wrt (\<lambda>a b. f a = f b \<longrightarrow> R a b) ys"
proof (induction ys)
  case Nil
  show ?case by simp
next
  case (Cons y ys)
  have tl: "sorted_wrt R (filter (\<lambda>z. f z = k) ys)" for k
    using Cons.prems [of k] by (simp split: if_splits)
  have "R y b" if "b \<in> set ys" "f y = f b" for b
    using Cons.prems [of "f y"] that by simp
  with Cons.IH [OF tl] show ?case by simp
qed

lemma sort_key_keeps_order_of_ties:
  assumes "sorted_wrt R xs"
  shows "sorted_wrt (\<lambda>a b. f a = f b \<longrightarrow> R a b) (sort_key f xs)"
proof (rule sorted_wrt_within_groups)
  fix k
  show "sorted_wrt R (filter (\<lambda>y. f y = k) (sort_key f xs))"
    using assms by (simp add: sort_key_stable sorted_wrt_filter)
qed

lemma sort_key_descending:
  "sorted_wrt (\<lambda>a b. snd b \<le> snd a)
     (sort_key (\<lambda>p. - int (snd p)) (xs :: ('a \<times> nat) list))"
proof -
  have "sorted (map (\<lambda>p. - int (snd p)) (sort_key (\<lambda>p. - int (snd p)) xs))"
    by (rule sorted_sort_key)
  then show ?thesis
    by (simp add: sorted_map)
qed

lemma most_common_subset: "set (most_common c n) \<subseteq> set c"
  using set_take_subset [of n "sort_key (\<lambda>p. - int (snd p)) c"]
  by (simp add: most_common_def nlargest_def)

text \<open>The list shown by the dashboard has at most 30 tags, each of them one of \<open>all_tags\<close>.\<close>

lemma tag_counts_at_most_30:
  "length (tag_counts all_tags) \<le> 30" and "fst ` set (tag_counts all_tags) \<subseteq> set all_tags"
proof -
  show "length (tag_counts all_tags) \<le> 30"
    by (simp add: tag_counts_def most_common_def nlargest_def)
  have "fst ` set (tag_counts all_tags) \<subseteq> fst ` set (Counter all_tags)"
    using most_common_subset [of "Counter all_tags" 30] by (auto simp: tag_counts_def)
  then show "fst ` set (tag_counts all_tags) \<subseteq> set all_tags"
    using keys_Counter [of all_tags] by simp
qed

text \<open>
  Claim C6. For every list of tags and every limit, the result of
  \<open>Counter(all_tags).most_common(limit)\<close> has at most \<open>limit\<close> entries, is sorted by
  descending count, and lists entries of equal count in the order in which their tags
  occur first in \<open>all_tags\<close>; the count of each entry is the number of occurrences of its
  tag. \<open>tag_counts\<close> is the instance with the limit 30.
\<close>

theorem most_common_tags:
  "length (most_common (Counter all_tags) limit) \<le> limit
   \<and> sorted_wrt (\<lambda>a b. snd b \<le> snd a) (most_common (Counter all_tags) limit)
   \<and> sorted_wrt (\<lambda>a b. snd a = snd b \<longrightarrow>
        first_occurrence (fst a) all_tags < first_occurrence (fst b) all_tags)
      (most_common (Counter all_tags) limit)
   \<and> map snd (most_common (Counter all_tags) limit) =
      map (count_list all_tags) (map fst (most_common (Counter all_tags) limit))"
proof -
  let ?key = "\<lambda>p :: 'a \<times> nat. - int (snd p)"
  let ?first = "\<lambda>a b :: 'a \<times> nat.
    first_occurrence (fst a) all_tags < first_occurrence (fst b) all_tags"
  have len: "length (most_common (Counter all_tags) limit) \<le> limit"
    by (simp add: most_common_def nlargest_def)
  have desc: "sorted_wrt (\<lambda>a b. snd b \<le> snd a) (most_common (Counter all_tags) limit)"
    using sort_key_descending [of "Counter all_tags"]
    by (simp add: most_common_def nlargest_def sorted_wrt_take)
  have "sorted_wrt ?first (Counter all_tags)"
    using Counter_first_occurrence_order [of all_tags] by (simp add: sorted_wrt_map)
  then have "sorted_wrt (\<lambda>a b. ?key a = ?key b \<longrightarrow> ?first a b)
      (sort_key ?key (Counter all_tags))"
    by (rule sort_key_keeps_order_of_ties)
  then have "sorted_wrt (\<lambda>a b. ?key a = ?key b \<longrightarrow> ?first a b)
      (most_common (Counter all_tags) limit)"
    by (simp add: most_common_def nlargest_def sorted_wrt_take)
  then have ties: "sorted_wrt (\<lambda>a b. snd a = snd b \<longrightarrow> ?first a b)
      (most_common (Counter all_tags) limit)"
    by simp
  have "snd p = count_list all_tags (fst p)"
    if "p \<in> set (most_common (Counter all_tags) limit)" for p
  proof -
    from that most_common_subset have "p \<in> set (Counter all_tags)" by blast
    then have "map_of (Counter all_tags) (fst p) = Some (snd p)"
      using map_of_eq_Some_iff [OF distinct_Counter, of all_tags "fst p" "snd p"] by simp
    then show ?thesis
      by (simp add: map_of_Counter split: if_splits)
  qed
  then have counts: "map snd (most_common (Counter all_tags) limit) =
      map (count_list all_tags) (map fst (most_common (Counter all_tags) limit))"
    by simp
  from len desc ties counts show ?thesis by blast
qed

text \<open>
  Tags \<open>b a b c a d\<close> with the limit 3: \<open>b\<close> and \<open>a\<close> both occur twice and \<open>b\<close> comes
  first; \<open>c\<close> is listed and \<open>d\<close>, of the same count, is cut.
\<close>

theorem most_common_tags_witness:
  "most_common
     (Counter [ascii ''b'', ascii ''a'', ascii ''b'', ascii ''c'', ascii ''a'', ascii ''d'']) 3
     = [(ascii ''b'', 2), (ascii ''a'', 2), (ascii ''c'', 1)]
   \<and> first_occurrence (ascii ''b'')
       [ascii ''b'', ascii ''a'', ascii ''b'', ascii ''c'', ascii ''a'', ascii ''d'']
     < first_occurrence (ascii ''a'')
       [ascii ''b'', ascii ''a'', ascii ''b'', ascii ''c'', ascii ''a'', ascii ''d'']"
proof -
  let ?tags = "[ascii ''b'', ascii ''a'', ascii ''b'', ascii ''c'', ascii ''a'', ascii ''d'']"
  have out: "most_common (Counter ?tags) 3 = [(ascii ''b'', 2), (ascii ''a'', 2), (ascii ''c'', 1)]"
    by (simp add: most_common_def nlargest_def Counter_def count_elements_def dict_get_def
        ascii_def)
  have "sorted_wrt (\<lambda>a b. snd a = snd b \<longrightarrow>
        first_occurrence (fst a) ?tags < first_occurrence (fst b) ?tags)
      (most_common (Counter ?tags) 3)"
    using most_common_tags [of ?tags 3] by blast
  then have "first_occurrence (ascii ''b'') ?tags < first_occurrence (ascii ''a'') ?tags"
    by (simp only: out sorted_wrt.simps list.set fst_conv snd_conv) (simp add: ascii_def)
  with out show ?thesis by simp
qed

section \<open>The context of the prompt\<close>

lemma sublist_concat: "x \<in> set xss \<Longrightarrow> sublist x (concat xss)"
proof -
  assume "x \<in> set xss"
  then obtain ys zs where "xss = ys @ x # zs"
    by (auto simp: in_set_conv_decomp)
  then have "concat xss = concat ys @ x @ concat zs" by simp
  then show ?thesis by (metis sublist_appendI)
qed

text \<open>Each prompt contains the label and the context it is given, and nothing else varies.\<close>

lemma prompt_embeds_text:
  "sublist transcript_text (prompt_app context_source transcript_text)"
  "sublist transcript_text (prompt_app1 context_source transcript_text)"
  "sublist transcript_text (prompt_app2 context_source transcript_text)"
  unfolding prompt_app_def prompt_app1_def prompt_app2_def
  by (rule sublist_concat, simp)+

lemma prompt_embeds_source:
  "sublist context_source (prompt_app context_source transcript_text)"
  "sublist context_source (prompt_app1 context_source transcript_text)"
  "sublist context_source (prompt_app2 context_source transcript_text)"
  unfolding prompt_app_def prompt_app1_def prompt_app2_def
  by (rule sublist_concat, simp)+

lemma length_ascii: "length (ascii s) = length s"
  by (simp add: ascii_def)

lemma length_prompt:
  "length (prompt_app context_source transcript_text) =
     797 + length context_source + length transcript_text"
  "length (prompt_app1 context_source transcript_text) =
     664 + length context_source + length transcript_text"
  "length (prompt_app2 context_source transcript_text) =
     752 + length context_source + length transcript_text"
  by (simp_all add: prompt_app_def prompt_app1_def prompt_app2_def length_ascii)

lemma str_join_empty_sep: "str_join [] ss = concat ss"
  by (induction "[] :: pystr" ss rule: str_join.induct) simp_all

lemma transcript_found:
  "get_transcript video_id = Inr transcript_list \<Longrightarrow>
     transcript_or_metadata cap get_transcript str_of_list video_id title tags =
       (ascii ''Full Transcript'',
        take cap (str_join (ascii '' '') (map entry_text transcript_list)))"
  by (simp add: transcript_or_metadata_def)

lemma transcript_missing:
  "get_transcript video_id = Inl e \<Longrightarrow>
     transcript_or_metadata cap get_transcript str_of_list video_id title tags =
       (ascii ''Title & Metadata (No Captions Found)'',
        ascii ''Video Title: '' @ title @ ascii ''. Video Tags: '' @ str_of_list tags)"
  by (simp add: transcript_or_metadata_def)

text \<open>
  Joining with a space puts a space before every text and drops the first one; in
  particular it keeps every text, in the order of the list.
\<close>

lemma str_join_space: "str_join [32] ss = tl (concat (map ((#) 32) ss))"
  by (induction "[32] :: pystr" ss rule: str_join.induct) simp_all

lemma ascii_space: "ascii '' '' = [32]"
  by (simp add: ascii_def)

text \<open>
  Each prompt is a fixed text before and after the context: with the label of the
  transcript, the context starts at position 105 in \<open>app.py\<close>, 80 in \<open>app1.py\<close> and 88
  in \<open>app2.py\<close>.
\<close>

lemma prompt_app_around:
  "prompt_app (ascii ''Full Transcript'') text =
     take 105 (prompt_app (ascii ''Full Transcript'') []) @ text @
     drop 105 (prompt_app (ascii ''Full Transcript'') [])"
  by (simp add: prompt_app_def length_ascii)

lemma prompt_app1_around:
  "prompt_app1 (ascii ''Full Transcript'') text =
     take 80 (prompt_app1 (ascii ''Full Transcript'') []) @ text @
     drop 80 (prompt_app1 (ascii ''Full Transcript'') [])"
  by (simp add: prompt_app1_def length_ascii)

lemma prompt_app2_around:
  "prompt_app2 (ascii ''Full Transcript'') text =
     take 88 (prompt_app2 (ascii ''Full Transcript'') []) @ text @
     drop 88 (prompt_app2 (ascii ''Full Transcript'') [])"
  by (simp add: prompt_app2_def length_ascii)

text \<open>
  Claim C9. When the transcript service returns a list of entries, \<open>ai_content_engine\<close>
  takes as context the texts of all entries in their order, joined by single spaces
  (written here as: a space before each text, the first space dropped) and cut to the
  cap of the file (5000 characters in \<open>app.py\<close> and \<open>app1.py\<close>, 8000 in \<open>app2.py\<close>). The
  cut is made before the prompt is built: the prompt given to the completion service is
  a fixed text around the cut context, whose length is at most the cap.
\<close>

theorem transcript_context_truncated_before_prompt:
  assumes "get_transcript video_id = Inr transcript_list"
  shows "let joined = tl (concat (map (\<lambda>t. 32 # entry_text t) transcript_list));
             source = ascii ''Full Transcript''
         in length (take 5000 joined) \<le> 5000
    \<and> ai_content_engine get_transcript generate_content str_of_list video_id title tags =
        (case generate_content (ascii ''gemini-pro'') (prompt_app source (take 5000 joined)) of
           Inl e \<Rightarrow> Inl e
         | Inr response_text \<Rightarrow> Inr (response_text, source))
    \<and> (\<exists>pre post. \<forall>text. prompt_app source text = pre @ text @ post)
    \<and> ai_content_engine_app1 get_transcript generate_content str_of_list video_id title tags =
        (case generate_content (ascii ''gemini-pro'') (prompt_app1 source (take 5000 joined)) of
           Inl e \<Rightarrow> Inl e
         | Inr response_text \<Rightarrow> Inr (response_text, source))
    \<and> (\<exists>pre post. \<forall>text. prompt_app1 source text = pre @ text @ post)
    \<and> length (take 8000 joined) \<le> 8000
    \<and> ai_content_engine_app2 get_transcript generate_content str_of_list video_id title tags =
        (case generate_content (ascii ''gemini-1.5-flash'')
                (prompt_app2 source (take 8000 joined)) of
           Inl (PyException msg) \<Rightarrow>
             Inr ([9888, 65039] @ ascii '' AI Error: '' @ msg, ascii ''Error'')
         | Inl (PyBaseException msg) \<Rightarrow> Inl (PyBaseException msg)
         | Inr response_text \<Rightarrow> Inr (response_text, source))
    \<and> (\<exists>pre post. \<forall>text. prompt_app2 source text = pre @ text @ post)"
proof -
  have joined: "str_join (ascii '' '') (map entry_text transcript_list) =
      tl (concat (map (\<lambda>t. 32 # entry_text t) transcript_list))"
    by (simp add: ascii_space str_join_space o_def)
  have p: "\<exists>pre post. \<forall>text. prompt_app (ascii ''Full Transcript'') text = pre @ text @ post"
    using prompt_app_around by blast
  have p1: "\<exists>pre post. \<forall>text. prompt_app1 (ascii ''Full Transcript'') text = pre @ text @ post"
    using prompt_app1_around by blast
  have p2: "\<exists>pre post. \<forall>text. prompt_app2 (ascii ''Full Transcript'') text = pre @ text @ post"
    using prompt_app2_around by blast
  have e: "ai_content_engine get_transcript generate_content str_of_list video_id title tags =
        (case generate_content (ascii ''gemini-pro'')
                (prompt_app (ascii ''Full Transcript'')
                   (take 5000 (tl (concat (map (\<lambda>t. 32 # entry_text t) transcript_list))))) of
           Inl e \<Rightarrow> Inl e
         | Inr response_text \<Rightarrow> Inr (response_text, ascii ''Full Transcript''))"
    using assms by (simp add: ai_content_engine_def transcript_found joined split: sum.splits)
  have e1: "ai_content_engine_app1 get_transcript generate_content str_of_list video_id title tags =
        (case generate_content (ascii ''gemini-pro'')
                (prompt_app1 (ascii ''Full Transcript'')
                   (take 5000 (tl (concat (map (\<lambda>t. 32 # entry_text t) transcript_list))))) of
           Inl e \<Rightarrow> Inl e
         | Inr response_text \<Rightarrow> Inr (response_text, ascii ''Full Transcript''))"
    using assms by (simp add: ai_content_engine_app1_def transcript_found joined split: sum.splits)
  have e2: "ai_content_engine_app2 get_transcript generate_content str_of_list video_id title tags =
        (case generate_content (ascii ''gemini-1.5-flash'')
                (prompt_app2 (ascii ''Full Transcript'')
                   (take 8000 (tl (concat (map (\<lambda>t. 32 # entry_text t) transcript_list))))) of
           Inl (PyException msg) \<Rightarrow>
             Inr ([9888, 65039] @ ascii '' AI Error: '' @ msg, ascii ''Error'')
         | Inl (PyBaseException msg) \<Rightarrow> Inl (PyBaseException msg)
         | Inr response_text \<Rightarrow> Inr (response_text, ascii ''Full Transcript''))"
    using assms
    by (simp add: ai_content_engine_app2_def transcript_found joined split: sum.splits pyexc.splits)
  from p p1 p2 e e1 e2 show ?thesis
    unfolding Let_def by simp
qed

text \<open>
  Two entries \<open>hello\<close> and \<open>world\<close>: the context is \<open>hello world\<close>, and a completion
  service that answers with the 11 characters at position 105 of its prompt answers
  \<open>hello world\<close>. A first entry of 4998 characters and a second entry \<open>tail\<close>: the cut at
  5000 keeps the space and the \<open>t\<close>, the cut at 8000 keeps everything.
\<close>

theorem transcript_context_truncated_before_prompt_witness:
  "transcript_or_metadata 5000 (\<lambda>_. Inr [entry (ascii ''hello''), entry (ascii ''world'')])
      str_of_list_plain (ascii ''abc'') (ascii ''My title'') []
     = (ascii ''Full Transcript'', ascii ''hello world'')
   \<and> ai_content_engine (\<lambda>_. Inr [entry (ascii ''hello''), entry (ascii ''world'')])
      (\<lambda>m p. Inr (take 11 (drop 105 p))) str_of_list_plain (ascii ''abc'') (ascii ''My title'') []
     = Inr (ascii ''hello world'', ascii ''Full Transcript'')
   \<and> transcript_or_metadata 5000 (\<lambda>_. Inr [entry (replicate 4998 97), entry (ascii ''tail'')])
      str_of_list_plain (ascii ''abc'') (ascii ''My title'') []
     = (ascii ''Full Transcript'', replicate 4998 97 @ ascii '' t'')
   \<and> transcript_or_metadata 8000 (\<lambda>_. Inr [entry (replicate 4998 97), entry (ascii ''tail'')])
      str_of_list_plain (ascii ''abc'') (ascii ''My title'') []
     = (ascii ''Full Transcript'', replicate 4998 97 @ ascii '' tail'')"
proof -
  have t1: "transcript_or_metadata 5000
      (\<lambda>_. Inr [entry (ascii ''hello''), entry (ascii ''world'')])
      str_of_list_plain (ascii ''abc'') (ascii ''My title'') []
     = (ascii ''Full Transcript'', ascii ''hello world'')"
    by (simp add: transcript_or_metadata_def entry_def ascii_def)
  have joined: "take 5000 (tl (concat (map (\<lambda>t. 32 # entry_text t)
      [entry (ascii ''hello''), entry (ascii ''world'')]))) = ascii ''hello world''"
    by (simp add: entry_def ascii_def)
  have at_105: "take 11 (drop 105 (prompt_app (ascii ''Full Transcript'') (ascii ''hello world'')))
      = ascii ''hello world''"
    by (subst prompt_app_around) (simp add: length_ascii prompt_app_def)
  have t2: "ai_content_engine (\<lambda>_. Inr [entry (ascii ''hello''), entry (ascii ''world'')])
      (\<lambda>m p. Inr (take 11 (drop 105 p))) str_of_list_plain (ascii ''abc'') (ascii ''My title'') []
     = Inr (ascii ''hello world'', ascii ''Full Transcript'')"
    using transcript_context_truncated_before_prompt [where
      get_transcript = "\<lambda>_. Inr [entry (ascii ''hello''), entry (ascii ''world'')]"
      and video_id = "ascii ''abc''"
      and transcript_list = "[entry (ascii ''hello''), entry (ascii ''world'')]"
      and title = "ascii ''My title''" and str_of_list = str_of_list_plain
      and tags = "[]" and generate_content = "\<lambda>m p. Inr (take 11 (drop 105 p))"]
    by (simp only: Let_def joined at_105) simp
  have t3: "transcript_or_metadata 5000
      (\<lambda>_. Inr [entry (replicate 4998 97), entry (ascii ''tail'')])
      str_of_list_plain (ascii ''abc'') (ascii ''My title'') []
     = (ascii ''Full Transcript'', replicate 4998 97 @ ascii '' t'')"
    by (simp add: transcript_or_metadata_def entry_def ascii_def)
  have t4: "transcript_or_metadata 8000
      (\<lambda>_. Inr [entry (replicate 4998 97), entry (ascii ''tail'')])
      str_of_list_plain (ascii ''abc'') (ascii ''My title'') []
     = (ascii ''Full Transcript'', replicate 4998 97 @ ascii '' tail'')"
    by (simp add: transcript_or_metadata_def entry_def ascii_def)
  from t1 t2 t3 t4 show ?thesis by blast
qed

text \<open>
  Claim C3. When the transcript service raises, whatever it raises, \<open>ai_content_engine\<close>
  does not raise that exception: in each of the three files it goes on with the label
  \<open>Title & Metadata (No Captions Found)\<close> and the context
  \<open>Video Title: <title>. Video Tags: <tags>\<close>, which contains the title given, and the
  outcome is decided by the completion service alone.
\<close>

theorem transcript_failure_falls_back:
  assumes "get_transcript video_id = Inl err"
  shows "let source = ascii ''Title & Metadata (No Captions Found)'';
             context = ascii ''Video Title: '' @ title @ ascii ''. Video Tags: '' @ str_of_list tags
         in sublist title context
    \<and> ai_content_engine get_transcript generate_content str_of_list video_id title tags =
        (case generate_content (ascii ''gemini-pro'') (prompt_app source context) of
           Inl e \<Rightarrow> Inl e
         | Inr response_text \<Rightarrow> Inr (response_text, source))
    \<and> ai_content_engine_app1 get_transcript generate_content str_of_list video_id title tags =
        (case generate_content (ascii ''gemini-pro'') (prompt_app1 source context) of
           Inl e \<Rightarrow> Inl e
         | Inr response_text \<Rightarrow> Inr (response_text, source))
    \<and> ai_content_engine_app2 get_transcript generate_content str_of_list video_id title tags =
        (case generate_content (ascii ''gemini-1.5-flash'') (prompt_app2 source context) of
           Inl (PyException msg) \<Rightarrow>
             Inr ([9888, 65039] @ ascii '' AI Error: '' @ msg, ascii ''Error'')
         | Inl (PyBaseException msg) \<Rightarrow> Inl (PyBaseException msg)
         | Inr response_text \<Rightarrow> Inr (response_text, source))"
proof -
  have "sublist title (ascii ''Video Title: '' @ title @ ascii ''. Video Tags: '' @ str_of_list tags)"
    by (rule sublist_appendI)
  with assms show ?thesis
    by (simp add: ai_content_engine_def ai_content_engine_app1_def ai_content_engine_app2_def
        transcript_missing Let_def split: sum.splits pyexc.splits)
qed

theorem transcript_failure_falls_back_witness:
  "ai_content_engine (\<lambda>_. Inl (PyException (ascii ''TranscriptsDisabled'')))
      (\<lambda>m p. Inr (ascii ''plan'')) str_of_list_plain (ascii ''abc'') (ascii ''My title'') [ascii ''x'']
     = Inr (ascii ''plan'', ascii ''Title & Metadata (No Captions Found)'')
   \<and> ai_content_engine_app2 (\<lambda>_. Inl (PyException (ascii ''TranscriptsDisabled'')))
      (\<lambda>m p. Inr (ascii ''plan'')) str_of_list_plain (ascii ''abc'') (ascii ''My title'') [ascii ''x'']
     = Inr (ascii ''plan'', ascii ''Title & Metadata (No Captions Found)'')
   \<and> sublist (ascii ''My title'')
       (snd (transcript_or_metadata 5000 (\<lambda>_. Inl (PyException (ascii ''TranscriptsDisabled'')))
          str_of_list_plain (ascii ''abc'') (ascii ''My title'') [ascii ''x'']))"
  using transcript_failure_falls_back [where
      get_transcript = "\<lambda>_. Inl (PyException (ascii ''TranscriptsDisabled''))"
      and video_id = "ascii ''abc''" and err = "PyException (ascii ''TranscriptsDisabled'')"
      and title = "ascii ''My title''" and str_of_list = str_of_list_plain
      and tags = "[ascii ''x'']" and generate_content = "\<lambda>m p. Inr (ascii ''plan'')"]
  by (simp add: Let_def transcript_or_metadata_def)

section \<open>Failure of the completion service\<close>

text \<open>
  \<open>app.py\<close> and \<open>app1.py\<close> call the completion service outside any \<open>try\<close>: what it
  raises, \<open>ai_content_engine\<close> raises.
\<close>

lemma completion_failure_raises:
  assumes "\<And>m p. generate_content m p = Inl e"
  shows "ai_content_engine get_transcript generate_content str_of_list video_id title tags = Inl e"
    and "ai_content_engine_app1 get_transcript generate_content str_of_list video_id title tags
      = Inl e"
  by (simp_all add: ai_content_engine_def ai_content_engine_app1_def assms split: prod.splits)

text \<open>
  \<open>app2.py\<close> catches it: the result is a message that is never empty, with the label
  \<open>Error\<close>.
\<close>

lemma completion_failure_contained:
  assumes "\<And>m p. generate_content m p = Inl (PyException msg)"
  shows "ai_content_engine_app2 get_transcript generate_content str_of_list video_id title tags =
      Inr ([9888, 65039] @ ascii '' AI Error: '' @ msg, ascii ''Error'')"
    and "[9888, 65039] @ ascii '' AI Error: '' @ msg \<noteq> []"
  by (simp_all add: ai_content_engine_app2_def assms split: prod.splits)

text \<open>
  Claim C1, evaluated. With a transcript of two entries and a completion service that
  raises \<open>Exception("quota")\<close>, \<open>ai_content_engine\<close> of \<open>app.py\<close> and of \<open>app1.py\<close>
  raises that exception, while the one of \<open>app2.py\<close> returns the error message and the
  label \<open>Error\<close>.
\<close>

theorem completion_failure_not_contained:
  "ai_content_engine (\<lambda>_. Inr [entry (ascii ''hello''), entry (ascii ''world'')])
      (\<lambda>m p. Inl (PyException (ascii ''quota''))) str_of_list_plain
      (ascii ''abc'') (ascii ''My title'') []
     = Inl (PyException (ascii ''quota''))
   \<and> ai_content_engine_app1 (\<lambda>_. Inr [entry (ascii ''hello''), entry (ascii ''world'')])
      (\<lambda>m p. Inl (PyException (ascii ''quota''))) str_of_list_plain
      (ascii ''abc'') (ascii ''My title'') []
     = Inl (PyException (ascii ''quota''))
   \<and> ai_content_engine_app2 (\<lambda>_. Inr [entry (ascii ''hello''), entry (ascii ''world'')])
      (\<lambda>m p. Inl (PyException (ascii ''quota''))) str_of_list_plain
      (ascii ''abc'') (ascii ''My title'') []
     = Inr ([9888, 65039] @ ascii '' AI Error: quota'', ascii ''Error'')"
  by (simp add: completion_failure_raises completion_failure_contained ascii_def)

end
